theory Spec2Isabelle
  imports Main
begin

section \<open>The Django tracing middleware of opencensus-ext-django\<close>

text \<open>
  A shallow embedding of \<^verbatim>\<open>opencensus/ext/django/middleware.py\<close>: the four hooks of
  \<^verbatim>\<open>OpencensusMiddleware\<close> and the database wrapper \<^verbatim>\<open>_trace_db_call\<close>.
  Python's leading underscore is dropped from names (\<^verbatim>\<open>_trace_db_call\<close> is
  \<open>trace_db_call\<close>), since an Isabelle name cannot start with one.
\<close>

subsection \<open>Exceptions and the calls that may raise them\<close>

text \<open>
  A Python exception (an instance of \<^verbatim>\<open>Exception\<close>): its class name, its \<^verbatim>\<open>str()\<close> and
  the formatted frames of its \<^verbatim>\<open>__traceback__\<close> (\<open>None\<close> when the object has no such
  attribute, as on Python 2).
\<close>

datatype pyexc = PyExc (exc_class: string) (exc_message: string) (exc_traceback: "string list option")

definition AttributeError :: pyexc where
  "AttributeError = PyExc ''AttributeError'' [] None"

definition KeyError :: pyexc where
  "KeyError = PyExc ''KeyError'' [] None"

text \<open>
  The calls into collaborators (propagator, tracer, span, request, user, exception object)
  that the middleware makes. Each of them may raise. Which ones do, during one invocation
  of a hook, is given by a function from call sites to the exception raised there; a call
  site that raises has no effect of its own.
\<close>

datatype callsite =
    From_headers
  | Tracer_init
  | Start_span
  | Get_host
  | Build_absolute_uri
  | Add_attribute_to_current_span string
  | Current_span
  | Get_func_name
  | Span_add_attribute string
  | User_pk
  | Get_username
  | Str_exception
  | Format_tb
  | Set_status
  | End_span
  | Finish

type_synonym faults = "callsite \<Rightarrow> pyexc option"

subsection \<open>Requests, responses, spans, tracer\<close>

record user =
  user_pk :: "int option"
  user_username :: "string option"

record request =
  req_path :: string
  req_method :: string
  req_host :: string
  req_absolute_uri :: string
  req_META :: "(string \<times> string) list"
  req_user :: "user option"

record response =
  status_code :: int
  content :: string

datatype span_kind = UNSPECIFIED | SERVER | CLIENT

datatype attr_value = AStr string | AInt int

text \<open>
  Modelled from the spec: the class \<^verbatim>\<open>opencensus.trace.span.Span\<close> is not part of the source
  at hand. A span has a name, a kind, a status (code and message, absent = OK), a mapping
  of attribute keys to values and a parent reference. Its end is recorded as the number
  of times it was closed.
\<close>

record span =
  span_name :: string
  span_kind :: span_kind
  span_status :: "(int \<times> string) option"
  span_attributes :: "string \<rightharpoonup> attr_value"
  span_parent :: "nat option"
  span_end_count :: nat

datatype span_context = SpanContext (trace_id: string) (parent_span_id: "string option") (sampled: bool)

text \<open>
  Modelled from the spec: the class \<^verbatim>\<open>opencensus.trace.tracer.Tracer\<close> is not part of the
  source at hand. A tracer is bound to a span context, a sampler, an exporter and a
  propagator, and owns the stack of currently open spans, innermost first; spans are
  objects on a heap and the stack holds references (heap indices). \<open>tr_finished\<close> counts
  the finalisations (flushes to the exporter).
\<close>

record tracer =
  tr_span_context :: span_context
  tr_sampler :: string
  tr_exporter :: string
  tr_propagator :: "(string \<Rightarrow> string option) \<Rightarrow> span_context"
  tr_stack :: "nat list"
  tr_finished :: nat

text \<open>What the Context Store (\<^verbatim>\<open>execution_context\<close> attributes) can hold.\<close>

datatype pyval = VRequest request | VHostnames "string list option" | VSpan nat

text \<open>
  The state the middleware works on: the attributes and the tracer slot of
  \<^verbatim>\<open>execution_context\<close>, the heap of span objects, the log of this module, and the
  traceback \<^verbatim>\<open>sys.exc_info()\<close> reports.
\<close>

record state =
  attrs :: "string \<rightharpoonup> pyval"
  tracer :: "tracer option"
  spans :: "span list"
  log_entries :: "(string \<times> pyexc) list"
  sys_exc_info_tb :: "string list"

record middleware =
  sampler :: string
  exporter :: string
  propagator :: "(string \<Rightarrow> string option) \<Rightarrow> span_context"
  excludelist_paths :: "string list option"
  excludelist_hostnames :: "string list option"

record db_connection =
  conn_vendor :: string
  conn_alias :: string

subsection \<open>Constants of the module\<close>

text \<open>
  The table \<^verbatim>\<open>attributes_helper.COMMON_ATTRIBUTES\<close>, from which the module takes its attribute
  keys, is not part of the source at hand. The spec's examples show three of the keys
  (\<^verbatim>\<open>http.status_code\<close>, \<^verbatim>\<open>error.name\<close>, \<^verbatim>\<open>error.message\<close>); the others are named alike.
\<close>

text \<open>Modelled from the spec: the entry \<^verbatim>\<open>HTTP_HOST\<close> of \<^verbatim>\<open>COMMON_ATTRIBUTES\<close>.\<close>

definition HTTP_HOST :: string where "HTTP_HOST = ''http.host''"

text \<open>Modelled from the spec: the entry \<^verbatim>\<open>HTTP_METHOD\<close> of \<^verbatim>\<open>COMMON_ATTRIBUTES\<close>.\<close>

definition HTTP_METHOD :: string where "HTTP_METHOD = ''http.method''"

text \<open>Modelled from the spec: the entry \<^verbatim>\<open>HTTP_PATH\<close> of \<^verbatim>\<open>COMMON_ATTRIBUTES\<close>.\<close>

definition HTTP_PATH :: string where "HTTP_PATH = ''http.path''"

text \<open>Modelled from the spec: the entry \<^verbatim>\<open>HTTP_ROUTE\<close> of \<^verbatim>\<open>COMMON_ATTRIBUTES\<close>.\<close>

definition HTTP_ROUTE :: string where "HTTP_ROUTE = ''http.route''"

text \<open>Modelled from the spec: the entry \<^verbatim>\<open>HTTP_URL\<close> of \<^verbatim>\<open>COMMON_ATTRIBUTES\<close>.\<close>

definition HTTP_URL :: string where "HTTP_URL = ''http.url''"

text \<open>Modelled from the spec: the entry \<^verbatim>\<open>HTTP_STATUS_CODE\<close> of \<^verbatim>\<open>COMMON_ATTRIBUTES\<close>.\<close>

definition HTTP_STATUS_CODE :: string where "HTTP_STATUS_CODE = ''http.status_code''"

text \<open>Modelled from the spec: the entry \<^verbatim>\<open>ERROR_MESSAGE\<close> of \<^verbatim>\<open>COMMON_ATTRIBUTES\<close>.\<close>

definition ERROR_MESSAGE :: string where "ERROR_MESSAGE = ''error.message''"

text \<open>Modelled from the spec: the entry \<^verbatim>\<open>ERROR_NAME\<close> of \<^verbatim>\<open>COMMON_ATTRIBUTES\<close>.\<close>

definition ERROR_NAME :: string where "ERROR_NAME = ''error.name''"

text \<open>Modelled from the spec: the entry \<^verbatim>\<open>STACKTRACE\<close> of \<^verbatim>\<open>COMMON_ATTRIBUTES\<close>.\<close>

definition STACKTRACE :: string where "STACKTRACE = ''stacktrace''"

definition REQUEST_THREAD_LOCAL_KEY :: string where
  "REQUEST_THREAD_LOCAL_KEY = ''django_request''"

definition SPAN_THREAD_LOCAL_KEY :: string where
  "SPAN_THREAD_LOCAL_KEY = ''django_span''"

text \<open>\<^verbatim>\<open>code_pb2.UNKNOWN\<close> of \<^verbatim>\<open>google.rpc\<close>.\<close>

definition UNKNOWN :: int where "UNKNOWN = 2"

subsection \<open>Computations that change the state and may raise\<close>

type_synonym 'a prog = "state \<Rightarrow> (pyexc + 'a) \<times> state"

definition ret :: "'a \<Rightarrow> 'a prog" where
  "ret x s = (Inr x, s)"

definition raise :: "pyexc \<Rightarrow> 'a prog" where
  "raise e s = (Inl e, s)"

definition bind :: "'a prog \<Rightarrow> ('a \<Rightarrow> 'b prog) \<Rightarrow> 'b prog" where
  "bind m k s = (case m s of (Inl e, s') \<Rightarrow> (Inl e, s') | (Inr x, s') \<Rightarrow> k x s')"

definition modify :: "(state \<Rightarrow> state) \<Rightarrow> unit prog" where
  "modify f s = (Inr (), f s)"

text \<open>A call into a collaborator: raises what the fault function says, else runs.\<close>

definition call :: "faults \<Rightarrow> callsite \<Rightarrow> 'a prog \<Rightarrow> 'a prog" where
  "call ft c m = (case ft c of Some e \<Rightarrow> raise e | None \<Rightarrow> m)"

text \<open>\<^verbatim>\<open>try: m except Exception: h\<close>\<close>

definition try_except :: "'a prog \<Rightarrow> (pyexc \<Rightarrow> 'a prog) \<Rightarrow> 'a prog" where
  "try_except m h s = (case m s of (Inl e, s') \<Rightarrow> h e s' | (Inr x, s') \<Rightarrow> (Inr x, s'))"

text \<open>
  \<^verbatim>\<open>try: m finally: fin\<close>: \<open>fin\<close> runs on both paths; an exception of \<open>fin\<close> replaces
  the outcome of \<open>m\<close>.
\<close>

definition try_finally :: "'a prog \<Rightarrow> unit prog \<Rightarrow> 'a prog" where
  "try_finally m fin s =
     (case m s of (r, s') \<Rightarrow>
        (case fin s' of (Inl e, s'') \<Rightarrow> (Inl e, s'') | (Inr _, s'') \<Rightarrow> (r, s'')))"

text \<open>
  \<^verbatim>\<open>try: m finally: return v\<close>: the \<^verbatim>\<open>return\<close> in the \<^verbatim>\<open>finally\<close> clause discards
  whatever \<open>m\<close> returned or raised.
\<close>

definition finally_return :: "'a prog \<Rightarrow> 'b \<Rightarrow> 'b prog" where
  "finally_return m v s = (case m s of (r, s') \<Rightarrow> (Inr v, s'))"

text \<open>\<^verbatim>\<open>log.error(msg, exc_info=True)\<close> inside an \<^verbatim>\<open>except\<close> clause that caught \<open>e\<close>.\<close>

definition log_error :: "string \<Rightarrow> pyexc \<Rightarrow> unit prog" where
  "log_error msg e = modify (\<lambda>s. s\<lparr>log_entries := log_entries s @ [(msg, e)]\<rparr>)"

subsection \<open>The Context Store\<close>

text \<open>
  Modelled from the spec: \<^verbatim>\<open>execution_context.set_opencensus_attr\<close> (the module
  \<^verbatim>\<open>opencensus.trace.execution_context\<close> is not part of the source at hand). The Context Store
  is a key/value store for the logical request, and a slot for the tracer of the logical
  request (empty when no tracer is active).
\<close>

definition set_opencensus_attr :: "string \<Rightarrow> pyval \<Rightarrow> unit prog" where
  "set_opencensus_attr k v = modify (\<lambda>s. s\<lparr>attrs := (attrs s)(k \<mapsto> v)\<rparr>)"

text \<open>
  Modelled from the spec: \<^verbatim>\<open>execution_context.get_opencensus_attr\<close> reads a key of the store,
  \<^verbatim>\<open>None\<close> when nothing was stored under it.
\<close>

definition get_opencensus_attr :: "string \<Rightarrow> (pyval option) prog" where
  "get_opencensus_attr k s = (Inr (attrs s k), s)"

text \<open>
  Modelled from the spec: \<^verbatim>\<open>execution_context.get_opencensus_tracer\<close> gives the tracer of the
  logical request, if one is active.
\<close>

definition get_opencensus_tracer :: "(tracer option) prog" where
  "get_opencensus_tracer s = (Inr (tracer s), s)"

text \<open>
  \<^verbatim>\<open>_get_django_request\<close> returns what is stored under the request key, the request object
  (its docstring says \<^verbatim>\<open>:rtype: str\<close>; the code reads \<^verbatim>\<open>.META\<close> from the result).
\<close>

definition get_django_request :: "(pyval option) prog" where
  "get_django_request = get_opencensus_attr REQUEST_THREAD_LOCAL_KEY"

text \<open>
  \<^verbatim>\<open>_get_django_span\<close> returns what is stored under the span key, the root span (its
  docstring says \<^verbatim>\<open>:rtype: str\<close> and \<^verbatim>\<open>:returns: Django request\<close>; the code calls
  \<^verbatim>\<open>add_attribute\<close> on the result).
\<close>

definition get_django_span :: "(pyval option) prog" where
  "get_django_span = get_opencensus_attr SPAN_THREAD_LOCAL_KEY"

definition get_current_tracer :: "(tracer option) prog" where
  "get_current_tracer = get_opencensus_tracer"

subsection \<open>The Exclusion Filter\<close>

text \<open>
  Modelled from the spec: \<^verbatim>\<open>utils.disable_tracing_url\<close> (\<^verbatim>\<open>opencensus.trace.utils\<close> is not part
  of the source at hand). The filter is a pure predicate that is true if any configured
  pattern matches; what it means for one pattern to match is the parameter \<open>pm\<close>
  (pattern first). No configured list means no pattern.
\<close>

definition disable_tracing_url :: "(string \<Rightarrow> string \<Rightarrow> bool) \<Rightarrow> string \<Rightarrow> string list option \<Rightarrow> bool" where
  "disable_tracing_url pm url excludelist =
     (case excludelist of None \<Rightarrow> False | Some ps \<Rightarrow> list_ex (\<lambda>p. pm p url) ps)"

text \<open>
  Modelled from the spec: the same predicate for a host name and the hostname-exclusion
  patterns (\<^verbatim>\<open>utils.disable_tracing_hostname\<close>, not part of the source at hand, and not called
  by the middleware).
\<close>

definition disable_tracing_hostname :: "(string \<Rightarrow> string \<Rightarrow> bool) \<Rightarrow> string \<Rightarrow> string list option \<Rightarrow> bool" where
  "disable_tracing_hostname pm hostname excludelist =
     (case excludelist of None \<Rightarrow> False | Some ps \<Rightarrow> list_ex (\<lambda>p. pm p hostname) ps)"

subsection \<open>Spans and the tracer\<close>

definition update_span :: "nat \<Rightarrow> (span \<Rightarrow> span) \<Rightarrow> state \<Rightarrow> state" where
  "update_span sid f s = s\<lparr>spans := (spans s)[sid := f (spans s ! sid)]\<rparr>"

text \<open>
  Looking up an attribute or method of what a variable holds, which is to be a span:
  \<^verbatim>\<open>None\<close> (or any other object) has no \<^verbatim>\<open>add_attribute\<close> and no \<^verbatim>\<open>name\<close> to set.
\<close>

definition the_span :: "pyval option \<Rightarrow> nat prog" where
  "the_span v = (case v of Some (VSpan sid) \<Rightarrow> ret sid | _ \<Rightarrow> raise AttributeError)"

definition the_tracer :: "tracer option \<Rightarrow> tracer prog" where
  "the_tracer v = (case v of Some tr \<Rightarrow> ret tr | None \<Rightarrow> raise AttributeError)"

text \<open>
  Modelled from the spec: \<^verbatim>\<open>Span.add_attribute\<close> (the class is not part of the source at
  hand) adds one entry to the attribute mapping of the span.
\<close>

definition span_add_attribute :: "faults \<Rightarrow> nat \<Rightarrow> string \<Rightarrow> attr_value \<Rightarrow> unit prog" where
  "span_add_attribute ft sid k v =
     call ft (Span_add_attribute k)
       (modify (update_span sid (\<lambda>sp. sp\<lparr>span_attributes := (span_attributes sp)(k \<mapsto> v)\<rparr>)))"

text \<open>Modelled from the spec: \<^verbatim>\<open>Span.set_status\<close> sets the status of the span.\<close>

definition span_set_status :: "faults \<Rightarrow> nat \<Rightarrow> int \<times> string \<Rightarrow> unit prog" where
  "span_set_status ft sid st =
     call ft Set_status (modify (update_span sid (\<lambda>sp. sp\<lparr>span_status := Some st\<rparr>)))"

text \<open>
  Modelled from the spec: a span as the tracer creates it (\<^verbatim>\<open>Span.__init__\<close> is not part of
  the source at hand): a placeholder name, no status, no attribute, not closed.
\<close>

definition blank_span :: "nat option \<Rightarrow> span" where
  "blank_span parent =
     \<lparr>span_name = ''span'', span_kind = UNSPECIFIED, span_status = None,
      span_attributes = Map.empty, span_parent = parent, span_end_count = 0\<rparr>"

text \<open>
  Modelled from the spec: the constructor
  \<^verbatim>\<open>Tracer(span_context, sampler, exporter, propagator)\<close> (not part of the source at hand): a tracer with no
  open span, which becomes the tracer of the logical request. The variable that holds the
  new tracer and the slot of the Context Store refer to the same object, so the methods
  below work on the slot.
\<close>

definition Tracer :: "faults \<Rightarrow> span_context \<Rightarrow> string \<Rightarrow> string \<Rightarrow> ((string \<Rightarrow> string option) \<Rightarrow> span_context) \<Rightarrow> unit prog" where
  "Tracer ft sc smp ex pr =
     call ft Tracer_init
       (modify (\<lambda>s. s\<lparr>tracer := Some \<lparr>tr_span_context = sc, tr_sampler = smp, tr_exporter = ex,
                                      tr_propagator = pr, tr_stack = [], tr_finished = 0\<rparr>\<rparr>))"

text \<open>
  Modelled from the spec: \<^verbatim>\<open>Tracer.start_span\<close> (not part of the source at hand): a new span,
  child of the current one, becomes the current span.
\<close>

definition start_span :: "faults \<Rightarrow> nat prog" where
  "start_span ft =
     call ft Start_span
       (bind get_opencensus_tracer (\<lambda>t. bind (the_tracer t) (\<lambda>tr s.
          (Inr (length (spans s)),
           s\<lparr>spans := spans s @ [blank_span (case tr_stack tr of [] \<Rightarrow> None | p # _ \<Rightarrow> Some p)],
             tracer := Some (tr\<lparr>tr_stack := length (spans s) # tr_stack tr\<rparr>)\<rparr>))))"

text \<open>
  Modelled from the spec: \<^verbatim>\<open>Tracer.current_span\<close> (not part of the source at hand): the
  innermost open span, or \<^verbatim>\<open>None\<close>.
\<close>

definition current_span :: "faults \<Rightarrow> (pyval option) prog" where
  "current_span ft =
     call ft Current_span
       (bind get_opencensus_tracer (\<lambda>t. bind (the_tracer t) (\<lambda>tr.
          ret (case tr_stack tr of [] \<Rightarrow> None | sid # _ \<Rightarrow> Some (VSpan sid)))))"

text \<open>
  Modelled from the spec: \<^verbatim>\<open>Tracer.add_attribute_to_current_span\<close> (not part of the source at
  hand) adds the attribute to the current span; with no open span there is no span to add
  it to, and the call fails.
\<close>

definition add_attribute_to_current_span :: "faults \<Rightarrow> string \<Rightarrow> attr_value \<Rightarrow> unit prog" where
  "add_attribute_to_current_span ft k v =
     call ft (Add_attribute_to_current_span k)
       (bind get_opencensus_tracer (\<lambda>t. bind (the_tracer t) (\<lambda>tr.
          (case tr_stack tr of
             [] \<Rightarrow> raise AttributeError
           | sid # _ \<Rightarrow>
               modify (update_span sid (\<lambda>sp. sp\<lparr>span_attributes := (span_attributes sp)(k \<mapsto> v)\<rparr>))))))"

text \<open>
  Modelled from the spec: \<^verbatim>\<open>Tracer.end_span\<close> (not part of the source at hand) closes the
  current span and makes its parent the current one. The spec does not say what it does
  with no open span; it is taken to do nothing then.
\<close>

definition end_span :: "faults \<Rightarrow> unit prog" where
  "end_span ft =
     call ft End_span
       (bind get_opencensus_tracer (\<lambda>t. bind (the_tracer t) (\<lambda>tr.
          (case tr_stack tr of
             [] \<Rightarrow> ret ()
           | sid # rest \<Rightarrow>
               modify (\<lambda>s. (update_span sid (\<lambda>sp. sp\<lparr>span_end_count := Suc (span_end_count sp)\<rparr>) s)
                              \<lparr>tracer := Some (tr\<lparr>tr_stack := rest\<rparr>)\<rparr>)))))"

text \<open>
  Modelled from the spec: \<^verbatim>\<open>Tracer.finish\<close> (not part of the source at hand) finalises the
  tracer (flush to the exporter).
\<close>

definition finish :: "faults \<Rightarrow> unit prog" where
  "finish ft =
     call ft Finish
       (bind get_opencensus_tracer (\<lambda>t. bind (the_tracer t) (\<lambda>tr.
          modify (\<lambda>s. s\<lparr>tracer := Some (tr\<lparr>tr_finished := Suc (tr_finished tr)\<rparr>)\<rparr>))))"

subsection \<open>Python's \<^verbatim>\<open>str\<close> on integers, \<^verbatim>\<open>upper\<close>, \<^verbatim>\<open>replace\<close>, \<^verbatim>\<open>join\<close>\<close>

definition digit_char :: "nat \<Rightarrow> char" where
  "digit_char d = char_of (48 + d)"

fun str_nat :: "nat \<Rightarrow> string" where
  "str_nat n = (if n < 10 then [digit_char n] else str_nat (n div 10) @ [digit_char (n mod 10)])"

definition str_int :: "int \<Rightarrow> string" where
  "str_int i = (if i < 0 then CHR ''-'' # str_nat (nat (- i)) else str_nat (nat i))"

text \<open>\<^verbatim>\<open>upper\<close> on one character; header names are ASCII.\<close>

definition upper_char :: "char \<Rightarrow> char" where
  "upper_char c =
     (if 97 \<le> (of_char c :: nat) \<and> (of_char c :: nat) \<le> 122 then char_of ((of_char c :: nat) - 32) else c)"

fun join :: "string \<Rightarrow> string list \<Rightarrow> string" where
  "join sep [] = []"
| "join sep [x] = x"
| "join sep (x # y # ys) = x @ sep @ join sep (y # ys)"

subsection \<open>\<^verbatim>\<open>_DjangoMetaWrapper\<close>\<close>

text \<open>
  \<^verbatim>\<open>__init__\<close>: \<^verbatim>\<open>self.meta = meta or _get_django_request().META\<close>; an empty \<^verbatim>\<open>meta\<close>
  is falsy, and then the request of the Context Store is read.
\<close>

definition the_request_META :: "pyval option \<Rightarrow> ((string \<times> string) list) prog" where
  "the_request_META v = (case v of Some (VRequest r) \<Rightarrow> ret (req_META r) | _ \<Rightarrow> raise AttributeError)"

definition DjangoMetaWrapper :: "(string \<times> string) list \<Rightarrow> ((string \<times> string) list) prog" where
  "DjangoMetaWrapper meta =
     (if meta \<noteq> [] then ret meta else bind get_django_request the_request_META)"

text \<open>\<^verbatim>\<open>get\<close>: \<^verbatim>\<open>self.meta.get('HTTP_' + key.upper().replace('-', '_'))\<close>\<close>

definition DjangoMetaWrapper_get :: "(string \<times> string) list \<Rightarrow> string \<Rightarrow> string option" where
  "DjangoMetaWrapper_get meta key =
     map_of meta (''HTTP_'' @ map (\<lambda>c. if c = CHR ''-'' then CHR ''_'' else c) (map upper_char key))"

subsection \<open>The functions of the module\<close>

text \<open>Running the wrapped call: its result or its exception, as it comes.\<close>

definition outcome :: "pyexc + 'a \<Rightarrow> 'a prog" where
  "outcome r s = (r, s)"

text \<open>\<^verbatim>\<open>context['connection']\<close>\<close>

definition getitem :: "(string \<rightharpoonup> 'a) \<Rightarrow> string \<Rightarrow> 'a prog" where
  "getitem d k = (case d k of None \<Rightarrow> raise KeyError | Some v \<Rightarrow> ret v)"

definition set_django_attributes :: "faults \<Rightarrow> pyval option \<Rightarrow> request \<Rightarrow> unit prog" where
  "set_django_attributes ft span request =
     (case req_user request of
        None \<Rightarrow> ret ()
      | Some django_user \<Rightarrow>
          bind (call ft User_pk (ret (user_pk django_user))) (\<lambda>user_id.
          bind (call ft Get_username (ret (user_username django_user))) (\<lambda>user_name.
          bind (case user_id of
                  None \<Rightarrow> ret ()
                | Some i \<Rightarrow>
                    bind (the_span span) (\<lambda>sid.
                    span_add_attribute ft sid ''django.user.id'' (AStr (str_int i)))) (\<lambda>_.
          (case user_name of
             None \<Rightarrow> ret ()
           | Some n \<Rightarrow>
               bind (the_span span) (\<lambda>sid.
               span_add_attribute ft sid ''django.user.name'' (AStr n)))))))"

definition trace_db_call ::
  "faults \<Rightarrow> (string \<Rightarrow> 'p \<Rightarrow> bool \<Rightarrow> (string \<rightharpoonup> db_connection) \<Rightarrow> pyexc + 'r) \<Rightarrow>
   string \<Rightarrow> 'p \<Rightarrow> bool \<Rightarrow> (string \<rightharpoonup> db_connection) \<Rightarrow> 'r prog" where
  "trace_db_call ft execute sql params many context =
     bind get_current_tracer (\<lambda>tr.
       (case tr of
          None \<Rightarrow> outcome (execute sql params many context)
        | Some _ \<Rightarrow>
            bind (getitem context ''connection'') (\<lambda>c1.
            bind (getitem context ''connection'') (\<lambda>c2.
            bind (start_span ft) (\<lambda>span.
            bind (modify (update_span span (\<lambda>sp. sp\<lparr>span_name := conn_vendor c1 @ ''.query''\<rparr>))) (\<lambda>_.
            bind (modify (update_span span (\<lambda>sp. sp\<lparr>span_kind := CLIENT\<rparr>))) (\<lambda>_.
            bind (add_attribute_to_current_span ft ''component'' (AStr (conn_vendor c1))) (\<lambda>_.
            bind (add_attribute_to_current_span ft ''db.instance'' (AStr (conn_alias c2))) (\<lambda>_.
            bind (add_attribute_to_current_span ft ''db.statement'' (AStr sql)) (\<lambda>_.
            bind (add_attribute_to_current_span ft ''db.type'' (AStr ''sql'')) (\<lambda>_.
            try_finally
              (try_except (outcome (execute sql params many context))
                 (\<lambda>e. bind (span_set_status ft span (UNKNOWN, ''DB error'')) (\<lambda>_. raise e)))
              (end_span ft))))))))))))"

text \<open>The body of the \<^verbatim>\<open>try\<close> block of \<^verbatim>\<open>process_request\<close>.\<close>

definition process_request_body :: "faults \<Rightarrow> middleware \<Rightarrow> request \<Rightarrow> unit prog" where
  "process_request_body ft self request =
     bind get_django_request (\<lambda>r.
     bind (the_request_META r) (\<lambda>meta.
     bind (DjangoMetaWrapper meta) (\<lambda>wrapped.
     bind (call ft From_headers (ret (propagator self (DjangoMetaWrapper_get wrapped)))) (\<lambda>span_context.
     bind (Tracer ft span_context (sampler self) (exporter self) (propagator self)) (\<lambda>_.
     bind (start_span ft) (\<lambda>span.
     bind (modify (update_span span (\<lambda>sp. sp\<lparr>span_kind := SERVER\<rparr>))) (\<lambda>_.
     bind (call ft Get_host (ret (req_host request))) (\<lambda>host.
     bind (add_attribute_to_current_span ft HTTP_HOST (AStr host)) (\<lambda>_.
     bind (add_attribute_to_current_span ft HTTP_METHOD (AStr (req_method request))) (\<lambda>_.
     bind (add_attribute_to_current_span ft HTTP_PATH (AStr (req_path request))) (\<lambda>_.
     bind (add_attribute_to_current_span ft HTTP_ROUTE (AStr (req_path request))) (\<lambda>_.
     bind (call ft Build_absolute_uri (ret (req_absolute_uri request))) (\<lambda>url.
     bind (add_attribute_to_current_span ft HTTP_URL (AStr url)) (\<lambda>_.
     set_opencensus_attr SPAN_THREAD_LOCAL_KEY (VSpan span)))))))))))))))"

definition process_request ::
  "(string \<Rightarrow> string \<Rightarrow> bool) \<Rightarrow> faults \<Rightarrow> middleware \<Rightarrow> request \<Rightarrow> unit prog" where
  "process_request pm ft self request =
     (if disable_tracing_url pm (req_path request) (excludelist_paths self) then ret ()
      else
        bind (set_opencensus_attr REQUEST_THREAD_LOCAL_KEY (VRequest request)) (\<lambda>_.
        bind (set_opencensus_attr ''excludelist_hostnames''
                (VHostnames (excludelist_hostnames self))) (\<lambda>_.
        try_except (process_request_body ft self request)
          (log_error ''Failed to trace request''))))"

text \<open>
  The body of the \<^verbatim>\<open>try\<close> block of \<^verbatim>\<open>process_view\<close>. The view function is given by the
  name \<^verbatim>\<open>utils.get_func_name\<close> finds for it.
\<close>

definition process_view_body :: "faults \<Rightarrow> string \<Rightarrow> unit prog" where
  "process_view_body ft view_func =
     bind get_current_tracer (\<lambda>tr.
     bind (the_tracer tr) (\<lambda>_.
     bind (current_span ft) (\<lambda>span.
     bind (call ft Get_func_name (ret view_func)) (\<lambda>name.
     bind (the_span span) (\<lambda>sid.
     modify (update_span sid (\<lambda>sp. sp\<lparr>span_name := name\<rparr>)))))))"

definition process_view ::
  "(string \<Rightarrow> string \<Rightarrow> bool) \<Rightarrow> faults \<Rightarrow> middleware \<Rightarrow> request \<Rightarrow> string \<Rightarrow> unit prog" where
  "process_view pm ft self request view_func =
     (if disable_tracing_url pm (req_path request) (excludelist_paths self) then ret ()
      else try_except (process_view_body ft view_func) (log_error ''Failed to trace request''))"

text \<open>The body of the \<^verbatim>\<open>try\<close> block of \<^verbatim>\<open>process_response\<close>.\<close>

definition process_response_body :: "faults \<Rightarrow> request \<Rightarrow> response \<Rightarrow> unit prog" where
  "process_response_body ft request response =
     bind get_django_span (\<lambda>span.
     bind (the_span span) (\<lambda>sid.
     bind (span_add_attribute ft sid HTTP_STATUS_CODE (AInt (status_code response))) (\<lambda>_.
     bind (set_django_attributes ft span request) (\<lambda>_.
     bind get_current_tracer (\<lambda>tr.
     bind (the_tracer tr) (\<lambda>_.
     bind (end_span ft) (\<lambda>_.
     finish ft)))))))"

definition process_response ::
  "(string \<Rightarrow> string \<Rightarrow> bool) \<Rightarrow> faults \<Rightarrow> middleware \<Rightarrow> request \<Rightarrow> response \<Rightarrow> response prog" where
  "process_response pm ft self request response =
     (if disable_tracing_url pm (req_path request) (excludelist_paths self) then ret response
      else
        finally_return
          (try_except (process_response_body ft request response)
             (log_error ''Failed to trace request''))
          response)"

text \<open>The body of the \<^verbatim>\<open>try\<close> block of \<^verbatim>\<open>process_exception\<close>.\<close>

definition process_exception_body :: "faults \<Rightarrow> request \<Rightarrow> pyexc \<Rightarrow> unit prog" where
  "process_exception_body ft request exception =
     bind (case exc_traceback exception of
             Some t \<Rightarrow> ret t
           | None \<Rightarrow> (\<lambda>s. (Inr (sys_exc_info_tb s), s))) (\<lambda>tb.
     bind get_django_span (\<lambda>span.
     bind (the_span span) (\<lambda>sid1.
     bind (span_add_attribute ft sid1 ERROR_NAME (AStr (exc_class exception))) (\<lambda>_.
     bind (the_span span) (\<lambda>sid2.
     bind (call ft Str_exception (ret (exc_message exception))) (\<lambda>msg.
     bind (span_add_attribute ft sid2 ERROR_MESSAGE (AStr msg)) (\<lambda>_.
     bind (the_span span) (\<lambda>sid3.
     bind (call ft Format_tb (ret tb)) (\<lambda>frames.
     bind (span_add_attribute ft sid3 STACKTRACE (AStr (join [CHR 0x0A] frames))) (\<lambda>_.
     set_django_attributes ft span request))))))))))"

definition process_exception ::
  "(string \<Rightarrow> string \<Rightarrow> bool) \<Rightarrow> faults \<Rightarrow> middleware \<Rightarrow> request \<Rightarrow> pyexc \<Rightarrow> unit prog" where
  "process_exception pm ft self request exception =
     (if disable_tracing_url pm (req_path request) (excludelist_paths self) then ret ()
      else try_except (process_exception_body ft request exception)
             (log_error ''Failed to trace request''))"

subsection \<open>Sample inputs\<close>

text \<open>No call raises.\<close>

definition no_faults :: faults where
  "no_faults = (\<lambda>_. None)"

text \<open>A pattern matches what it is a prefix of.\<close>

definition startswith :: "string \<Rightarrow> string \<Rightarrow> bool" where
  "startswith p url = (take (length p) url = p)"

definition empty_state :: state where
  "empty_state =
     \<lparr>attrs = Map.empty, tracer = None, spans = [], log_entries = [], sys_exc_info_tb = []\<rparr>"

definition example_middleware :: middleware where
  "example_middleware =
     \<lparr>sampler = ''ProbabilitySampler'', exporter = ''PrintExporter'',
      propagator = (\<lambda>get. SpanContext ''0af7651916cd43dd8448eb211c80319c'' (get ''traceparent'') True),
      excludelist_paths = Some [''/healthz''],
      excludelist_hostnames = Some [''shop.example.com'']\<rparr>"

text \<open>
  A request by a visitor who is not logged in: Django's \<^verbatim>\<open>AnonymousUser\<close> has no primary
  key and the empty string as user name.
\<close>

definition example_request :: request where
  "example_request =
     \<lparr>req_path = ''/orders/42'', req_method = ''GET'', req_host = ''shop.example.com'',
      req_absolute_uri = ''http://shop.example.com/orders/42'', req_META = [],
      req_user = Some \<lparr>user_pk = None, user_username = Some ''''\<rparr>\<rparr>"

text \<open>The same request by a logged-in user.\<close>

definition member_request :: request where
  "member_request = example_request\<lparr>req_user := Some \<lparr>user_pk = Some 7, user_username = Some ''alice''\<rparr>\<rparr>"

definition healthz_request :: request where
  "healthz_request =
     \<lparr>req_path = ''/healthz'', req_method = ''GET'', req_host = ''shop.example.com'',
      req_absolute_uri = ''http://shop.example.com/healthz'', req_META = [],
      req_user = None\<rparr>"

definition example_response :: response where
  "example_response = \<lparr>status_code = 200, content = ''ok''\<rparr>"

definition example_exception :: pyexc where
  "example_exception = PyExc ''ValueError'' ''boom'' (Some [''File views.py, line 3, in orders''])"

text \<open>Django's \<^verbatim>\<open>get_host\<close> rejects the Host header.\<close>

definition host_fault :: faults where
  "host_fault = (\<lambda>_. None)(Get_host \<mapsto> PyExc ''DisallowedHost'' ''Invalid HTTP_HOST header'' None)"

definition start_span_fault :: faults where
  "start_span_fault = (\<lambda>_. None)(Start_span \<mapsto> PyExc ''RuntimeError'' ''sampler failed'' None)"

definition example_context :: "string \<rightharpoonup> db_connection" where
  "example_context = [''connection'' \<mapsto> \<lparr>conn_vendor = ''postgresql'', conn_alias = ''default''\<rparr>]"

definition execute_ok :: "string \<Rightarrow> unit \<Rightarrow> bool \<Rightarrow> (string \<rightharpoonup> db_connection) \<Rightarrow> pyexc + nat" where
  "execute_ok sql params many context = Inr 1"

definition execute_fails :: "string \<Rightarrow> unit \<Rightarrow> bool \<Rightarrow> (string \<rightharpoonup> db_connection) \<Rightarrow> pyexc + nat" where
  "execute_fails sql params many context = Inl (PyExc ''OperationalError'' ''connection lost'' None)"

text \<open>The state the example request is in after \<^verbatim>\<open>process_request\<close> traced it.\<close>

definition traced_state :: state where
  "traced_state = snd (process_request startswith no_faults example_middleware example_request empty_state)"

definition member_state :: state where
  "member_state = snd (process_request startswith no_faults example_middleware member_request empty_state)"

text \<open>\<^verbatim>\<open>str(exception)\<close> raises, as it does on Python 2 for a message that is not ASCII.\<close>

definition str_fault :: faults where
  "str_fault = (\<lambda>_. None)(Str_exception \<mapsto> PyExc ''UnicodeEncodeError'' ''ascii codec cannot encode'' None)"

text \<open>Closing a span raises.\<close>

definition end_span_fault :: faults where
  "end_span_fault = (\<lambda>_. None)(End_span \<mapsto> PyExc ''RuntimeError'' ''exporter failed'' None)"

text \<open>
  The traced request with a child span open: some nested operation has started a span
  and has not ended it, so the tracer's current span is the child, not the root span.
\<close>

definition child_open_state :: state where
  "child_open_state = snd (start_span no_faults traced_state)"

text \<open>
  The traced request just before \<^verbatim>\<open>process_response\<close>: the view was resolved, the handler
  made one database call and then raised, and \<^verbatim>\<open>process_exception\<close> ran, with
  \<^verbatim>\<open>str(exception)\<close> failing in it.
\<close>

definition lifecycle_state :: state where
  "lifecycle_state =
     snd (process_exception startswith str_fault example_middleware example_request example_exception
       (snd (trace_db_call no_faults execute_ok ''SELECT 1'' () False example_context
         (snd (process_view startswith no_faults example_middleware example_request ''orders''
           traced_state)))))"

text \<open>The state after the first two statements of \<^verbatim>\<open>process_request\<close> on a path not excluded.\<close>

definition store_request :: "middleware \<Rightarrow> request \<Rightarrow> state \<Rightarrow> state" where
  "store_request self request s =
     s\<lparr>attrs := (attrs s)(REQUEST_THREAD_LOCAL_KEY \<mapsto> VRequest request,
                            ''excludelist_hostnames'' \<mapsto> VHostnames (excludelist_hostnames self))\<rparr>"

text \<open>What \<^verbatim>\<open>_set_django_attributes\<close> makes of the attributes of a span when no call raises.\<close>

definition user_attributes :: "request \<Rightarrow> (string \<rightharpoonup> attr_value) \<Rightarrow> (string \<rightharpoonup> attr_value)" where
  "user_attributes request a =
     (case req_user request of
        None \<Rightarrow> a
      | Some u \<Rightarrow>
          (let a1 = (case user_pk u of None \<Rightarrow> a | Some i \<Rightarrow> a(''django.user.id'' \<mapsto> AStr (str_int i)))
           in (case user_username u of None \<Rightarrow> a1 | Some n \<Rightarrow> a1(''django.user.name'' \<mapsto> AStr n))))"

subsection \<open>What a computation leaves unchanged\<close>

definition keeps :: "(state \<Rightarrow> 'x) \<Rightarrow> 'a prog \<Rightarrow> bool" where
  "keeps f m = (\<forall>s. f (snd (m s)) = f s)"

text \<open>The tracer, the Context Store and how often each span was closed.\<close>

definition open_close :: "state \<Rightarrow> tracer option \<times> (string \<rightharpoonup> pyval) \<times> nat list" where
  "open_close s = (tracer s, attrs s, map span_end_count (spans s))"

text \<open>The span \<^verbatim>\<open>process_request\<close> opens for a request when no call raises.\<close>

definition root_span :: "request \<Rightarrow> span" where
  "root_span request =
     \<lparr>span_name = ''span'', span_kind = SERVER, span_status = None,
      span_attributes = [HTTP_HOST \<mapsto> AStr (req_host request),
                         HTTP_METHOD \<mapsto> AStr (req_method request),
                         HTTP_PATH \<mapsto> AStr (req_path request),
                         HTTP_ROUTE \<mapsto> AStr (req_path request),
                         HTTP_URL \<mapsto> AStr (req_absolute_uri request)],
      span_parent = None, span_end_count = 0\<rparr>"

section \<open>Properties\<close>

subsection \<open>Unfolding and frame lemmas\<close>

lemmas prog_defs = bind_def ret_def raise_def modify_def call_def try_except_def try_finally_def
  finally_return_def log_error_def outcome_def getitem_def

lemmas store_defs = set_opencensus_attr_def get_opencensus_attr_def get_opencensus_tracer_def
  get_django_request_def get_django_span_def get_current_tracer_def

lemmas tracer_defs = update_span_def the_span_def the_tracer_def span_add_attribute_def
  span_set_status_def blank_span_def Tracer_def start_span_def current_span_def
  add_attribute_to_current_span_def end_span_def finish_def

lemma keepsD: "keeps f m \<Longrightarrow> f (snd (m s)) = f s"
  by (simp add: keeps_def)

lemma keeps_ret: "keeps f (ret x)"
  by (simp add: keeps_def ret_def)

lemma keeps_raise: "keeps f (raise e)"
  by (simp add: keeps_def raise_def)

lemma keeps_bind: "keeps f m \<Longrightarrow> (\<And>x. keeps f (k x)) \<Longrightarrow> keeps f (bind m k)"
  by (auto simp: keeps_def bind_def split: prod.splits sum.splits) (metis snd_conv)+

lemma keeps_call: "keeps f m \<Longrightarrow> keeps f (call ft c m)"
  by (simp add: call_def keeps_raise split: option.splits)

lemma keeps_get:
  "keeps f get_django_request" "keeps f get_django_span" "keeps f get_current_tracer"
  "keeps f get_opencensus_tracer"
  by (simp_all add: keeps_def store_defs)

lemma keeps_the: "keeps f (the_span v)" "keeps f (the_tracer t)" "keeps f (the_request_META v)"
  by (simp_all add: the_span_def the_tracer_def the_request_META_def keeps_ret keeps_raise
      split: option.splits pyval.splits)

lemma keeps_modify: "(\<And>s. f (g s) = f s) \<Longrightarrow> keeps f (modify g)"
  by (simp add: keeps_def modify_def)

lemma map_update_same: "g (h (xs ! i)) = g (xs ! i) \<Longrightarrow> map g (xs[i := h (xs ! i)]) = map g xs"
  by (cases "i < length xs") (simp_all add: map_update list_update_same_conv list_update_beyond)

text \<open>The log.\<close>

lemma log_update_span: "log_entries (update_span sid h s) = log_entries s"
  by (simp add: update_span_def)

lemma keeps_log_span_add_attribute: "keeps log_entries (span_add_attribute ft sid k v)"
  by (simp add: span_add_attribute_def keeps_call keeps_modify log_update_span)

lemma keeps_log_Tracer: "keeps log_entries (Tracer ft sc smp ex pr)"
  by (simp add: Tracer_def keeps_call keeps_modify)

lemma keeps_log_start_span: "keeps log_entries (start_span ft)"
  unfolding start_span_def
  by (intro keeps_call keeps_bind keeps_get keeps_the) (simp add: keeps_def)

lemma keeps_log_current_span: "keeps log_entries (current_span ft)"
  unfolding current_span_def
  by (intro keeps_call keeps_bind keeps_get keeps_the keeps_ret)

lemma keeps_log_add_attribute_to_current_span:
  "keeps log_entries (add_attribute_to_current_span ft k v)"
  unfolding add_attribute_to_current_span_def
  by (intro keeps_call keeps_bind keeps_get keeps_the)
     (simp add: keeps_raise keeps_modify log_update_span split: list.splits)

lemma keeps_log_end_span: "keeps log_entries (end_span ft)"
  unfolding end_span_def
  by (intro keeps_call keeps_bind keeps_get keeps_the)
     (simp add: keeps_ret keeps_modify log_update_span split: list.splits)

lemma keeps_log_finish: "keeps log_entries (finish ft)"
  unfolding finish_def
  by (intro keeps_call keeps_bind keeps_get keeps_the keeps_modify) simp

lemma keeps_log_set_django_attributes: "keeps log_entries (set_django_attributes ft span request)"
  unfolding set_django_attributes_def
  by (auto intro!: keeps_call keeps_bind keeps_ret keeps_the keeps_log_span_add_attribute
      split: option.splits)

lemma keeps_log_set_opencensus_attr: "keeps log_entries (set_opencensus_attr k v)"
  by (simp add: set_opencensus_attr_def keeps_modify)

lemma keeps_log_DjangoMetaWrapper: "keeps log_entries (DjangoMetaWrapper meta)"
  by (simp add: DjangoMetaWrapper_def keeps_ret keeps_bind keeps_get keeps_the)

lemma keeps_log_process_request_body: "keeps log_entries (process_request_body ft self request)"
  unfolding process_request_body_def
  by (intro keeps_bind keeps_call keeps_ret keeps_get keeps_the keeps_log_DjangoMetaWrapper
      keeps_log_Tracer keeps_log_start_span keeps_log_add_attribute_to_current_span
      keeps_log_set_opencensus_attr keeps_modify log_update_span)

lemma keeps_log_process_view_body: "keeps log_entries (process_view_body ft view_func)"
  unfolding process_view_body_def
  by (intro keeps_bind keeps_call keeps_ret keeps_get keeps_the keeps_log_current_span
      keeps_modify log_update_span)

lemma keeps_log_process_response_body: "keeps log_entries (process_response_body ft request response)"
  unfolding process_response_body_def
  by (intro keeps_bind keeps_get keeps_the keeps_log_span_add_attribute
      keeps_log_set_django_attributes keeps_log_end_span keeps_log_finish)

lemma keeps_log_process_exception_body: "keeps log_entries (process_exception_body ft request exception)"
  unfolding process_exception_body_def
  by (intro keeps_bind keeps_call keeps_ret keeps_get keeps_the keeps_log_span_add_attribute
      keeps_log_set_django_attributes)
     (simp add: keeps_def ret_def split: option.splits)

text \<open>A guarded block: the hook returns normally, and logs what the block raised.\<close>

lemma guarded_result: "fst (try_except m (log_error msg) s) = Inr ()"
  by (simp add: try_except_def log_error_def modify_def split: prod.splits sum.splits)

lemma guarded_log:
  assumes "keeps log_entries m"
  shows "log_entries (snd (try_except m (log_error msg) s)) =
           log_entries s @ (case fst (m s) of Inl e \<Rightarrow> [(msg, e)] | Inr _ \<Rightarrow> [])"
proof (cases "m s")
  case (Pair r s')
  with keepsD [OF assms, of s] show ?thesis
    by (cases r) (simp_all add: try_except_def log_error_def modify_def)
qed


subsection \<open>The hooks when no call raises, and what they never touch\<close>

lemma key_neq [simp]:
  "REQUEST_THREAD_LOCAL_KEY \<noteq> SPAN_THREAD_LOCAL_KEY"
  "SPAN_THREAD_LOCAL_KEY \<noteq> REQUEST_THREAD_LOCAL_KEY"
  "''excludelist_hostnames'' \<noteq> SPAN_THREAD_LOCAL_KEY"
  "SPAN_THREAD_LOCAL_KEY \<noteq> ''excludelist_hostnames''"
  "''excludelist_hostnames'' \<noteq> REQUEST_THREAD_LOCAL_KEY"
  "REQUEST_THREAD_LOCAL_KEY \<noteq> ''excludelist_hostnames''"
  by (simp_all add: REQUEST_THREAD_LOCAL_KEY_def SPAN_THREAD_LOCAL_KEY_def)

lemma process_request_not_excluded:
  assumes "\<not> disable_tracing_url pm (req_path request) (excludelist_paths self)"
  shows "process_request pm ft self request s =
           try_except (process_request_body ft self request) (log_error ''Failed to trace request'')
             (store_request self request s)"
  using assms
  by (simp add: process_request_def bind_def set_opencensus_attr_def modify_def store_request_def)

lemma process_request_body_early_fault:
  assumes "ft From_headers \<noteq> None \<or> ft Tracer_init \<noteq> None \<or> ft Start_span \<noteq> None"
  shows "\<exists>e s'. process_request_body ft self request (store_request self request s) = (Inl e, s') \<and>
           attrs s' = attrs (store_request self request s) \<and> spans s' = spans s"
proof (cases "ft From_headers")
  case (Some e)
  then show ?thesis
    by (simp add: process_request_body_def store_request_def prog_defs store_defs
        the_request_META_def DjangoMetaWrapper_def)
next
  case None
  note fh = this
  show ?thesis
  proof (cases "ft Tracer_init")
    case (Some e)
    with fh show ?thesis
      by (simp add: process_request_body_def store_request_def prog_defs store_defs
          the_request_META_def DjangoMetaWrapper_def Tracer_def)
  next
    case None
    with fh assms obtain e where "ft Start_span = Some e"
      by auto
    with fh None show ?thesis
      by (simp add: process_request_body_def store_request_def prog_defs store_defs
          the_request_META_def DjangoMetaWrapper_def Tracer_def start_span_def)
  qed
qed

lemma update_span_twice:
  "update_span sid f (update_span sid g s) = update_span sid (\<lambda>sp. f (g sp)) s"
  by (cases "sid < length (spans s)") (simp_all add: update_span_def list_update_beyond)

lemma update_span_id: "update_span sid (\<lambda>sp. sp) s = s"
  by (simp add: update_span_def)

lemma set_django_attributes_no_faults:
  assumes "\<forall>c. ft c = None"
  shows "set_django_attributes ft (Some (VSpan sid)) request s =
           (Inr (), update_span sid
              (\<lambda>sp. sp\<lparr>span_attributes := user_attributes request (span_attributes sp)\<rparr>) s)"
  using assms
  by (simp add: set_django_attributes_def user_attributes_def prog_defs the_span_def
      span_add_attribute_def update_span_twice update_span_id split: option.splits)

lemma process_exception_body_no_faults:
  assumes "\<forall>c. ft c = None" "attrs s SPAN_THREAD_LOCAL_KEY = Some (VSpan sid)"
  shows "process_exception_body ft request exception s =
           (Inr (), update_span sid
              (\<lambda>sp. sp\<lparr>span_attributes := user_attributes request
                 ((span_attributes sp)
                    (ERROR_NAME \<mapsto> AStr (exc_class exception),
                     ERROR_MESSAGE \<mapsto> AStr (exc_message exception),
                     STACKTRACE \<mapsto> AStr (join [CHR 0x0A]
                        (case exc_traceback exception of Some t \<Rightarrow> t | None \<Rightarrow> sys_exc_info_tb s))))\<rparr>) s)"
proof -
  have a: "attrs (update_span sid f s) = attrs s" "sys_exc_info_tb (update_span sid f s) = sys_exc_info_tb s" for f s
    by (simp_all add: update_span_def)
  show ?thesis
    using assms
    by (simp add: process_exception_body_def bind_def ret_def call_def get_django_span_def
        get_opencensus_attr_def the_span_def span_add_attribute_def modify_def
        set_django_attributes_no_faults update_span_twice a split: option.splits)
qed

lemma open_close_update_span:
  "(\<And>sp. span_end_count (h sp) = span_end_count sp) \<Longrightarrow>
   open_close (update_span sid h s) = open_close s"
  by (simp add: open_close_def update_span_def map_update_same)

lemma open_close_log: "open_close (s\<lparr>log_entries := l\<rparr>) = open_close s"
  by (simp add: open_close_def)

lemma keeps_oc_span_add_attribute: "keeps open_close (span_add_attribute ft sid k v)"
  by (simp add: span_add_attribute_def keeps_call keeps_modify open_close_update_span)

lemma keeps_oc_current_span: "keeps open_close (current_span ft)"
  unfolding current_span_def
  by (intro keeps_call keeps_bind keeps_get keeps_the keeps_ret)

lemma keeps_oc_set_django_attributes: "keeps open_close (set_django_attributes ft span request)"
  unfolding set_django_attributes_def
  by (auto intro!: keeps_call keeps_bind keeps_ret keeps_the keeps_oc_span_add_attribute
      split: option.splits)

lemma keeps_oc_log_error: "keeps open_close (log_error msg e)"
  by (simp add: log_error_def keeps_modify open_close_log)

lemma keeps_try_except: "keeps f m \<Longrightarrow> (\<And>e. keeps f (h e)) \<Longrightarrow> keeps f (try_except m h)"
  by (auto simp: keeps_def try_except_def split: prod.splits sum.splits) (metis snd_conv)+

lemma keeps_oc_process_view: "keeps open_close (process_view pm ft self request view_func)"
  unfolding process_view_def process_view_body_def
  by (auto intro!: keeps_try_except keeps_bind keeps_call keeps_ret keeps_get keeps_the
      keeps_oc_current_span keeps_oc_log_error keeps_modify open_close_update_span)

lemma keeps_oc_process_exception: "keeps open_close (process_exception pm ft self request exception)"
  unfolding process_exception_def process_exception_body_def
  apply (auto intro!: keeps_try_except keeps_bind keeps_call keeps_ret keeps_get keeps_the
      keeps_oc_span_add_attribute keeps_oc_set_django_attributes keeps_oc_log_error
      split: option.splits)
  apply (simp add: keeps_def)
  done

lemma process_response_body_no_faults:
  assumes "\<forall>c. ft c = None" "attrs s SPAN_THREAD_LOCAL_KEY = Some (VSpan sid)"
    and "tracer s = Some tr" "tr_stack tr = cur # rest"
  shows "process_response_body ft request response s =
           (Inr (),
            (update_span cur (\<lambda>sp. sp\<lparr>span_end_count := Suc (span_end_count sp)\<rparr>)
              (update_span sid
                (\<lambda>sp. sp\<lparr>span_attributes := user_attributes request
                   ((span_attributes sp)(HTTP_STATUS_CODE \<mapsto> AInt (status_code response)))\<rparr>) s))
            \<lparr>tracer := Some (tr\<lparr>tr_stack := rest, tr_finished := Suc (tr_finished tr)\<rparr>)\<rparr>)"
proof -
  have a: "attrs (update_span i f s) = attrs s" "tracer (update_span i f s) = tracer s" for f s i
    by (simp_all add: update_span_def)
  have b: "update_span i f (s\<lparr>tracer := t\<rparr>) = (update_span i f s)\<lparr>tracer := t\<rparr>" for f s i t
    by (simp add: update_span_def)
  show ?thesis
    using assms
    by (simp add: process_response_body_def bind_def ret_def call_def get_django_span_def
        get_opencensus_attr_def get_current_tracer_def get_opencensus_tracer_def the_tracer_def
        the_span_def span_add_attribute_def modify_def end_span_def finish_def
        set_django_attributes_no_faults update_span_twice a b)
qed

lemma process_request_body_no_faults:
  assumes "\<forall>c. ft c = None" "attrs s REQUEST_THREAD_LOCAL_KEY = Some (VRequest request)"
  shows "process_request_body ft self request s =
     (Inr (),
      s\<lparr>attrs := (attrs s)(SPAN_THREAD_LOCAL_KEY \<mapsto> VSpan (length (spans s))),
        tracer := Some \<lparr>tr_span_context = propagator self (DjangoMetaWrapper_get (req_META request)),
                        tr_sampler = sampler self, tr_exporter = exporter self,
                        tr_propagator = propagator self,
                        tr_stack = [length (spans s)], tr_finished = 0\<rparr>,
        spans := spans s @ [root_span request]\<rparr>)"
  using assms
  by (simp add: process_request_body_def prog_defs store_defs tracer_defs the_request_META_def
      DjangoMetaWrapper_def root_span_def)

lemma process_request_no_faults:
  assumes "\<not> disable_tracing_url pm (req_path request) (excludelist_paths self)"
    and "\<forall>c. ft c = None"
  shows "process_request pm ft self request s =
     (Inr (),
      s\<lparr>attrs := (attrs s)(REQUEST_THREAD_LOCAL_KEY \<mapsto> VRequest request,
                            ''excludelist_hostnames'' \<mapsto> VHostnames (excludelist_hostnames self),
                            SPAN_THREAD_LOCAL_KEY \<mapsto> VSpan (length (spans s))),
        tracer := Some \<lparr>tr_span_context = propagator self (DjangoMetaWrapper_get (req_META request)),
                        tr_sampler = sampler self, tr_exporter = exporter self,
                        tr_propagator = propagator self,
                        tr_stack = [length (spans s)], tr_finished = 0\<rparr>,
        spans := spans s @ [root_span request]\<rparr>)"
proof -
  have "attrs (store_request self request s) REQUEST_THREAD_LOCAL_KEY = Some (VRequest request)"
    by (simp add: store_request_def)
  from process_request_body_no_faults [OF assms(2) this, of self]
  show ?thesis
    by (simp add: process_request_not_excluded [OF assms(1)] try_except_def store_request_def)
qed

lemma end_count_update_span:
  "cur < length (spans s) \<Longrightarrow>
   map span_end_count
     (spans (update_span cur (\<lambda>sp. sp\<lparr>span_end_count := Suc (span_end_count sp)\<rparr>) s)) =
   (map span_end_count (spans s))[cur := Suc (map span_end_count (spans s) ! cur)]"
  by (simp add: update_span_def map_update)

lemma end_count_update_span_same:
  "(\<And>sp. span_end_count (h sp) = span_end_count sp) \<Longrightarrow>
   map span_end_count (spans (update_span sid h s)) = map span_end_count (spans s)"
  by (simp add: update_span_def map_update_same)

lemma length_update_span: "length (spans (update_span sid h s)) = length (spans s)"
  by (simp add: update_span_def)

lemma process_response_closes_current:
  assumes "\<not> disable_tracing_url pm (req_path request) (excludelist_paths self)"
    and "\<forall>c. ft c = None"
    and "attrs s SPAN_THREAD_LOCAL_KEY = Some (VSpan sid)"
    and "tracer s = Some tr" "tr_stack tr = cur # rest" "cur < length (spans s)"
  shows "map span_end_count (spans (snd (process_response pm ft self request response s))) =
           (map span_end_count (spans s))[cur := Suc (map span_end_count (spans s) ! cur)] \<and>
         tracer (snd (process_response pm ft self request response s)) =
           Some (tr\<lparr>tr_stack := rest, tr_finished := Suc (tr_finished tr)\<rparr>)"
  using assms(1,6)
  by (simp add: process_response_def finally_return_def try_except_def
      process_response_body_no_faults [OF assms(2-5)] end_count_update_span
      end_count_update_span_same length_update_span)

lemma trace_db_call_no_faults:
  assumes "tracer s = Some tr" and "ctx ''connection'' = Some conn" and "\<forall>c. ft c = None"
  shows "trace_db_call ft execute sql params many ctx s =
     (execute sql params many ctx,
      s\<lparr>spans := spans s @
           [\<lparr>span_name = conn_vendor conn @ ''.query'', span_kind = CLIENT,
             span_status = (case execute sql params many ctx of
                              Inl e \<Rightarrow> Some (UNKNOWN, ''DB error'') | Inr r \<Rightarrow> None),
             span_attributes = [''component'' \<mapsto> AStr (conn_vendor conn),
                                ''db.instance'' \<mapsto> AStr (conn_alias conn),
                                ''db.statement'' \<mapsto> AStr sql,
                                ''db.type'' \<mapsto> AStr ''sql''],
             span_parent = (case tr_stack tr of [] \<Rightarrow> None | p # _ \<Rightarrow> Some p),
             span_end_count = 1\<rparr>]\<rparr>)"
  using assms
  by (cases "execute sql params many ctx")
     (simp_all add: trace_db_call_def prog_defs store_defs tracer_defs)

lemma user_attributes_other:
  "k \<noteq> ''django.user.id'' \<Longrightarrow> k \<noteq> ''django.user.name'' \<Longrightarrow> user_attributes request a k = a k"
  by (simp add: user_attributes_def Let_def split: option.splits)

lemma user_attributes_id:
  "user_attributes request a ''django.user.id'' =
     (case req_user request of
        None \<Rightarrow> a ''django.user.id''
      | Some u \<Rightarrow> (case user_pk u of None \<Rightarrow> a ''django.user.id'' | Some i \<Rightarrow> Some (AStr (str_int i))))"
  by (simp add: user_attributes_def Let_def split: option.splits)

lemma user_attributes_name:
  "user_attributes request a ''django.user.name'' =
     (case req_user request of
        None \<Rightarrow> a ''django.user.name''
      | Some u \<Rightarrow> (case user_username u of None \<Rightarrow> a ''django.user.name'' | Some n \<Rightarrow> Some (AStr n)))"
  by (simp add: user_attributes_def Let_def split: option.splits)

lemma process_response_attributes:
  assumes "\<not> disable_tracing_url pm (req_path request) (excludelist_paths self)"
    and "\<forall>c. ft c = None"
    and "attrs s SPAN_THREAD_LOCAL_KEY = Some (VSpan sid)"
    and "sid < length (spans s)"
  shows "span_attributes (spans (snd (process_response pm ft self request response s)) ! sid) =
           user_attributes request
             ((span_attributes (spans s ! sid))(HTTP_STATUS_CODE \<mapsto> AInt (status_code response)))"
proof -
  let ?s1 = "update_span sid
                (\<lambda>sp. sp\<lparr>span_attributes := user_attributes request
                   ((span_attributes sp)(HTTP_STATUS_CODE \<mapsto> AInt (status_code response)))\<rparr>) s"
  have a: "attrs (update_span i f s) = attrs s" "tracer (update_span i f s) = tracer s" for f s i
    by (simp_all add: update_span_def)
  have head: "process_response_body ft request response s =
      bind get_current_tracer (\<lambda>tr. bind (the_tracer tr) (\<lambda>_. bind (end_span ft) (\<lambda>_. finish ft))) ?s1"
    using assms(2,3)
    by (simp add: process_response_body_def bind_def ret_def call_def get_django_span_def
        get_opencensus_attr_def the_span_def span_add_attribute_def modify_def
        set_django_attributes_no_faults update_span_twice)
  have keep: "keeps (\<lambda>s. map span_attributes (spans s))
      (bind get_current_tracer (\<lambda>tr. bind (the_tracer tr) (\<lambda>_. bind (end_span ft) (\<lambda>_. finish ft))))"
    unfolding end_span_def finish_def
    by (intro keeps_bind keeps_call keeps_get keeps_the)
       (auto intro!: keeps_ret keeps_modify simp: update_span_def map_update_same split: list.splits)
  have k2: "keeps (\<lambda>s. map span_attributes (spans s))
      (try_except
         (bind get_current_tracer (\<lambda>tr. bind (the_tracer tr) (\<lambda>_. bind (end_span ft) (\<lambda>_. finish ft))))
         (log_error ''Failed to trace request''))"
    by (intro keeps_try_except keep) (simp add: log_error_def keeps_modify)
  have "snd (process_response pm ft self request response s) =
          snd (try_except
            (bind get_current_tracer (\<lambda>tr. bind (the_tracer tr) (\<lambda>_. bind (end_span ft) (\<lambda>_. finish ft))))
            (log_error ''Failed to trace request'') ?s1)"
    using assms(1)
    by (simp add: process_response_def finally_return_def try_except_def head split: prod.splits)
  then have m: "map span_attributes (spans (snd (process_response pm ft self request response s))) =
          map span_attributes (spans ?s1)"
    using keepsD [OF k2, of ?s1] by simp
  have l: "sid < length (spans (snd (process_response pm ft self request response s)))"
    using arg_cong [OF m, of length] assms(4) by (simp add: update_span_def)
  have "span_attributes (spans (snd (process_response pm ft self request response s)) ! sid) =
          map span_attributes (spans (snd (process_response pm ft self request response s))) ! sid"
    using l by simp
  also have "\<dots> = map span_attributes (spans ?s1) ! sid"
    by (simp only: m)
  also have "\<dots> = user_attributes request
             ((span_attributes (spans s ! sid))(HTTP_STATUS_CODE \<mapsto> AInt (status_code response)))"
    using assms(4) by (simp add: update_span_def)
  finally show ?thesis .
qed

lemma keeps_store_process_request_body:
  "keeps (\<lambda>s. (attrs s REQUEST_THREAD_LOCAL_KEY, attrs s ''excludelist_hostnames''))
     (process_request_body ft self request)"
proof -
  have u: "attrs (update_span sid h s) = attrs s" for sid h s
    by (simp add: update_span_def)
  have a: "keeps (\<lambda>s. (attrs s REQUEST_THREAD_LOCAL_KEY, attrs s ''excludelist_hostnames''))
             (add_attribute_to_current_span ft k v)" for k v
    unfolding add_attribute_to_current_span_def
    by (intro keeps_call keeps_bind keeps_get keeps_the)
       (simp add: keeps_raise keeps_modify u split: list.splits)
  have t: "keeps (\<lambda>s. (attrs s REQUEST_THREAD_LOCAL_KEY, attrs s ''excludelist_hostnames''))
             (Tracer ft sc smp ex pr)" for sc smp ex pr
    by (simp add: Tracer_def keeps_call keeps_modify)
  have st: "keeps (\<lambda>s. (attrs s REQUEST_THREAD_LOCAL_KEY, attrs s ''excludelist_hostnames''))
             (start_span ft)"
    unfolding start_span_def
    by (intro keeps_call keeps_bind keeps_get keeps_the) (simp add: keeps_def)
  have w: "keeps (\<lambda>s. (attrs s REQUEST_THREAD_LOCAL_KEY, attrs s ''excludelist_hostnames''))
             (DjangoMetaWrapper meta)" for meta
    by (simp add: DjangoMetaWrapper_def keeps_ret keeps_bind keeps_get keeps_the)
  have sa: "keeps (\<lambda>s. (attrs s REQUEST_THREAD_LOCAL_KEY, attrs s ''excludelist_hostnames''))
             (set_opencensus_attr SPAN_THREAD_LOCAL_KEY v)" for v
    by (simp add: set_opencensus_attr_def keeps_modify)
  show ?thesis
    unfolding process_request_body_def
    by (intro keeps_bind keeps_call keeps_ret keeps_get keeps_the w t st a sa keeps_modify)
       (simp add: u)
qed

subsection \<open>The sample inputs\<close>

lemma example_not_excluded:
  "\<not> disable_tracing_url startswith (req_path example_request) (excludelist_paths example_middleware)"
  by (simp add: disable_tracing_url_def startswith_def example_request_def example_middleware_def)

lemma no_faults_all: "\<forall>c. no_faults c = None"
  by (simp add: no_faults_def)

lemma traced_state_eq:
  "traced_state =
     \<lparr>attrs = [REQUEST_THREAD_LOCAL_KEY \<mapsto> VRequest example_request,
               ''excludelist_hostnames'' \<mapsto> VHostnames (Some [''shop.example.com'']),
               SPAN_THREAD_LOCAL_KEY \<mapsto> VSpan 0],
      tracer = Some \<lparr>tr_span_context = SpanContext ''0af7651916cd43dd8448eb211c80319c'' None True,
                      tr_sampler = ''ProbabilitySampler'', tr_exporter = ''PrintExporter'',
                      tr_propagator = propagator example_middleware,
                      tr_stack = [0], tr_finished = 0\<rparr>,
      spans = [root_span example_request], log_entries = [], sys_exc_info_tb = []\<rparr>"
  by (simp add: traced_state_def process_request_no_faults [OF example_not_excluded no_faults_all]
      empty_state_def)
     (simp add: example_middleware_def example_request_def DjangoMetaWrapper_get_def)

lemma host_fault_state:
  "process_request startswith host_fault example_middleware example_request empty_state =
     (Inr (),
      \<lparr>attrs = [REQUEST_THREAD_LOCAL_KEY \<mapsto> VRequest example_request,
                ''excludelist_hostnames'' \<mapsto> VHostnames (Some [''shop.example.com''])],
       tracer = Some \<lparr>tr_span_context = SpanContext ''0af7651916cd43dd8448eb211c80319c'' None True,
                      tr_sampler = ''ProbabilitySampler'', tr_exporter = ''PrintExporter'',
                      tr_propagator = propagator example_middleware,
                      tr_stack = [0], tr_finished = 0\<rparr>,
       spans = [(blank_span None)\<lparr>span_kind := SERVER\<rparr>],
       log_entries = [(''Failed to trace request'',
                       PyExc ''DisallowedHost'' ''Invalid HTTP_HOST header'' None)],
       sys_exc_info_tb = []\<rparr>)"
  by (simp add: process_request_not_excluded [OF example_not_excluded] try_except_def
      process_request_body_def store_request_def empty_state_def host_fault_def
      prog_defs store_defs tracer_defs the_request_META_def DjangoMetaWrapper_def)
     (simp add: example_middleware_def example_request_def DjangoMetaWrapper_get_def)

lemma member_not_excluded:
  "\<not> disable_tracing_url startswith (req_path member_request) (excludelist_paths example_middleware)"
  by (simp add: disable_tracing_url_def startswith_def member_request_def example_request_def
      example_middleware_def)

lemma member_state_facts:
  "attrs member_state SPAN_THREAD_LOCAL_KEY = Some (VSpan 0)"
  "0 < length (spans member_state)"
  "span_attributes (spans member_state ! 0) ''django.user.id'' = None"
  "span_attributes (spans member_state ! 0) ''django.user.name'' = None"
  by (simp_all add: member_state_def process_request_no_faults [OF member_not_excluded no_faults_all]
      empty_state_def root_span_def HTTP_HOST_def HTTP_METHOD_def HTTP_PATH_def HTTP_ROUTE_def
      HTTP_URL_def)

lemma traced_state_facts:
  "attrs traced_state SPAN_THREAD_LOCAL_KEY = Some (VSpan 0)"
  "0 < length (spans traced_state)"
  "span_attributes (spans traced_state ! 0) ''django.user.id'' = None"
  "span_attributes (spans traced_state ! 0) ''django.user.name'' = None"
  "span_end_count (spans traced_state ! 0) = 0"
  by (simp_all add: traced_state_eq root_span_def HTTP_HOST_def HTTP_METHOD_def HTTP_PATH_def
      HTTP_ROUTE_def HTTP_URL_def)

lemma trace_db_call_frame:
  assumes "tracer s = Some tr" and "ctx ''connection'' = Some conn" and "\<forall>c. ft c = None"
  shows "tracer (snd (trace_db_call ft execute sql params many ctx s)) = tracer s \<and>
         attrs (snd (trace_db_call ft execute sql params many ctx s)) = attrs s \<and>
         map span_end_count (spans (snd (trace_db_call ft execute sql params many ctx s))) =
           map span_end_count (spans s) @ [1]"
  by (simp add: trace_db_call_no_faults [where ctx = ctx and ft = ft, OF assms])

lemma traced_state_tracer:
  "tracer traced_state =
      Some \<lparr>tr_span_context = SpanContext ''0af7651916cd43dd8448eb211c80319c'' None True,
            tr_sampler = ''ProbabilitySampler'', tr_exporter = ''PrintExporter'',
            tr_propagator = propagator example_middleware,
            tr_stack = [0], tr_finished = 0\<rparr>"
  by (simp add: traced_state_eq)

lemma example_context_connection:
  "example_context ''connection'' = Some \<lparr>conn_vendor = ''postgresql'', conn_alias = ''default''\<rparr>"
  by (simp add: example_context_def)

lemma lifecycle_state_facts:
  "tracer lifecycle_state = tracer traced_state"
  "attrs lifecycle_state = attrs traced_state"
  "map span_end_count (spans lifecycle_state) = [0, 1]"
proof -
  let ?v = "snd (process_view startswith no_faults example_middleware example_request ''orders''
           traced_state)"
  let ?d = "snd (trace_db_call no_faults execute_ok ''SELECT 1'' () False example_context ?v)"
  have v: "open_close ?v = open_close traced_state"
    by (rule keepsD [OF keeps_oc_process_view])
  then have tv: "tracer ?v = tracer traced_state"
    by (simp add: open_close_def)
  have d: "tracer ?d = tracer ?v \<and> attrs ?d = attrs ?v \<and>
           map span_end_count (spans ?d) = map span_end_count (spans ?v) @ [1]"
    using tv traced_state_tracer example_context_connection no_faults_all
    by (intro trace_db_call_frame) simp_all
  have l: "open_close lifecycle_state = open_close ?d"
    unfolding lifecycle_state_def by (rule keepsD [OF keeps_oc_process_exception])
  have "map span_end_count (spans traced_state) = [0]"
    by (simp add: traced_state_eq root_span_def)
  with v d l show "tracer lifecycle_state = tracer traced_state"
    "attrs lifecycle_state = attrs traced_state"
    "map span_end_count (spans lifecycle_state) = [0, 1]"
    by (simp_all add: open_close_def)
qed

lemma child_open_state_eq:
  "child_open_state =
     traced_state\<lparr>spans := [root_span example_request, blank_span (Some 0)],
       tracer := Some \<lparr>tr_span_context = SpanContext ''0af7651916cd43dd8448eb211c80319c'' None True,
                      tr_sampler = ''ProbabilitySampler'', tr_exporter = ''PrintExporter'',
                      tr_propagator = propagator example_middleware,
                      tr_stack = [1, 0], tr_finished = 0\<rparr>\<rparr>"
  by (simp add: child_open_state_def start_span_def no_faults_def call_def bind_def
      get_opencensus_tracer_def the_tracer_def ret_def traced_state_eq)

subsection \<open>One root span, closed once\<close>

text \<open>
  C1, as the claim states it, fails. The sample request is not excluded, and Django's
  \<^verbatim>\<open>get_host\<close> raises while \<^verbatim>\<open>process_request\<close> sets the first attribute: the root span
  has been opened by then but is never stored in the Context Store, so \<^verbatim>\<open>process_response\<close>
  finds no span, fails before \<^verbatim>\<open>tracer.end_span()\<close> and swallows the failure. One span
  exists at the end and it was closed zero times.
\<close>

theorem root_span_never_closed_counterexample:
  "\<not> disable_tracing_url startswith (req_path example_request) (excludelist_paths example_middleware) \<and>
   map span_end_count
     (spans (snd (process_response startswith no_faults example_middleware example_request example_response
        (snd (process_request startswith host_fault example_middleware example_request empty_state)))))
     = [0]"
  by (simp add: example_not_excluded host_fault_state process_response_def finally_return_def
      try_except_def process_response_body_def prog_defs store_defs the_span_def blank_span_def
      SPAN_THREAD_LOCAL_KEY_def REQUEST_THREAD_LOCAL_KEY_def)

text \<open>
  C1, amended. For a request whose path is not excluded, when none of the calls made by
  \<^verbatim>\<open>process_request\<close> and \<^verbatim>\<open>process_response\<close> raises, and when at \<^verbatim>\<open>process_response\<close> the
  root span is still the span in the Context Store, is the tracer's current span and has
  not been closed: \<^verbatim>\<open>process_request\<close> opens exactly one span, the root span, stores it and
  makes it the current span; \<^verbatim>\<open>process_response\<close> closes the root span exactly once (its
  close count goes from 0 to 1), changes the close count of no other span, and finalises
  the tracer once. What runs in between keeps the three conditions on the root span:
  \<^verbatim>\<open>process_view\<close> and \<^verbatim>\<open>process_exception\<close>, in any state and whatever raises inside them,
  leave the tracer, the Context Store and the close count of every span as they were (so
  \<^verbatim>\<open>process_exception\<close> never closes a span), and a \<^verbatim>\<open>_trace_db_call\<close> whose span management
  does not raise leaves the tracer and the Context Store as they were and adds one span,
  closed once.
\<close>

theorem root_span_closed_once:
  assumes "\<not> disable_tracing_url pm (req_path request) (excludelist_paths self)"
    and "\<forall>c. ft c = None"
    and "s1 = snd (process_request pm ft self request s)"
    and "attrs s3 SPAN_THREAD_LOCAL_KEY = Some (VSpan (length (spans s)))"
    and "tracer s3 = Some tr" and "tr_stack tr = length (spans s) # rest"
    and "length (spans s) < length (spans s3)"
    and "span_end_count (spans s3 ! length (spans s)) = 0"
    and "s4 = snd (process_response pm ft self request response s3)"
  shows "spans s1 = spans s @ [root_span request] \<and>
         attrs s1 SPAN_THREAD_LOCAL_KEY = Some (VSpan (length (spans s))) \<and>
         (\<exists>t. tracer s1 = Some t \<and> tr_stack t = [length (spans s)]) \<and>
         map span_end_count (spans s4) = (map span_end_count (spans s3))[length (spans s) := 1] \<and>
         span_end_count (spans s4 ! length (spans s)) = 1 \<and>
         tracer s4 = Some (tr\<lparr>tr_stack := rest, tr_finished := Suc (tr_finished tr)\<rparr>) \<and>
         tracer (snd (process_view pm ftv self request view_func st)) = tracer st \<and>
         attrs (snd (process_view pm ftv self request view_func st)) = attrs st \<and>
         map span_end_count (spans (snd (process_view pm ftv self request view_func st))) =
           map span_end_count (spans st) \<and>
         tracer (snd (process_exception pm fte self request e st)) = tracer st \<and>
         attrs (snd (process_exception pm fte self request e st)) = attrs st \<and>
         map span_end_count (spans (snd (process_exception pm fte self request e st))) =
           map span_end_count (spans st) \<and>
         (tracer st \<noteq> None \<and> ctx ''connection'' \<noteq> None \<longrightarrow>
            tracer (snd (trace_db_call ft execute sql params many ctx st)) = tracer st \<and>
            attrs (snd (trace_db_call ft execute sql params many ctx st)) = attrs st \<and>
            map span_end_count (spans (snd (trace_db_call ft execute sql params many ctx st))) =
              map span_end_count (spans st) @ [1])"
proof -
  let ?n = "length (spans s)"
  have s1: "spans s1 = spans s @ [root_span request]"
    "attrs s1 SPAN_THREAD_LOCAL_KEY = Some (VSpan ?n)"
    "\<exists>t. tracer s1 = Some t \<and> tr_stack t = [?n]"
    by (simp_all add: assms(3) process_request_no_faults [OF assms(1,2)])
  from process_response_closes_current [OF assms(1,2,4,5,6,7), of response]
  have m: "map span_end_count (spans s4) = (map span_end_count (spans s3))[?n := 1]"
    and t: "tracer s4 = Some (tr\<lparr>tr_stack := rest, tr_finished := Suc (tr_finished tr)\<rparr>)"
    using assms(7,8) by (simp_all add: assms(9))
  have "?n < length (spans s4)"
    using arg_cong [OF m, of length] assms(7) by simp
  then have "span_end_count (spans s4 ! ?n) = map span_end_count (spans s4) ! ?n"
    by simp
  also have "\<dots> = 1"
    using assms(7) by (simp add: m)
  finally have c: "span_end_count (spans s4 ! ?n) = 1" .
  have pv: "open_close (snd (process_view pm ftv self request view_func st)) = open_close st"
    by (rule keepsD [OF keeps_oc_process_view])
  have pe: "open_close (snd (process_exception pm fte self request e st)) = open_close st"
    by (rule keepsD [OF keeps_oc_process_exception])
  have db: "tracer (snd (trace_db_call ft execute sql params many ctx st)) = tracer st \<and>
            attrs (snd (trace_db_call ft execute sql params many ctx st)) = attrs st \<and>
            map span_end_count (spans (snd (trace_db_call ft execute sql params many ctx st))) =
              map span_end_count (spans st) @ [1]"
    if "tracer st \<noteq> None \<and> ctx ''connection'' \<noteq> None"
  proof -
    from that obtain tr0 conn where "tracer st = Some tr0" "ctx ''connection'' = Some conn"
      by auto
    then show ?thesis
      by (rule trace_db_call_frame) (rule assms(2))
  qed
  show ?thesis
    using s1 m c t pv pe db by (simp add: open_close_def)
qed

theorem root_span_closed_once_witness:
  "\<not> disable_tracing_url startswith (req_path example_request) (excludelist_paths example_middleware) \<and>
   (\<forall>c. no_faults c = None) \<and>
   map span_end_count (spans lifecycle_state) = [0, 1] \<and>
   map span_end_count
     (spans (snd (process_response startswith no_faults example_middleware example_request example_response
        (snd (process_exception startswith str_fault example_middleware example_request example_exception
          (snd (trace_db_call no_faults execute_ok ''SELECT 1'' () False example_context
            (snd (process_view startswith no_faults example_middleware example_request ''orders''
              (snd (process_request startswith no_faults example_middleware example_request
                 empty_state)))))))))))
     = [1, 1]"
proof -
  have sp: "spans empty_state = []"
    by (simp add: empty_state_def)
  have a: "attrs lifecycle_state SPAN_THREAD_LOCAL_KEY = Some (VSpan (length (spans empty_state)))"
    by (simp add: lifecycle_state_facts(2) traced_state_facts(1) sp)
  have t: "tracer lifecycle_state =
      Some \<lparr>tr_span_context = SpanContext ''0af7651916cd43dd8448eb211c80319c'' None True,
            tr_sampler = ''ProbabilitySampler'', tr_exporter = ''PrintExporter'',
            tr_propagator = propagator example_middleware,
            tr_stack = [0], tr_finished = 0\<rparr>"
    by (simp add: lifecycle_state_facts(1) traced_state_tracer)
  have k: "tr_stack \<lparr>tr_span_context = SpanContext ''0af7651916cd43dd8448eb211c80319c'' None True,
            tr_sampler = ''ProbabilitySampler'', tr_exporter = ''PrintExporter'',
            tr_propagator = propagator example_middleware,
            tr_stack = [0], tr_finished = 0\<rparr> = length (spans empty_state) # []"
    by (simp add: sp)
  have len: "length (spans empty_state) < length (spans lifecycle_state)"
    using arg_cong [OF lifecycle_state_facts(3), of length] by (simp add: sp)
  then have "span_end_count (spans lifecycle_state ! length (spans empty_state)) =
      map span_end_count (spans lifecycle_state) ! length (spans empty_state)"
    by simp
  then have z: "span_end_count (spans lifecycle_state ! length (spans empty_state)) = 0"
    by (simp add: lifecycle_state_facts(3) sp)
  have "map span_end_count
     (spans (snd (process_response startswith no_faults example_middleware example_request
        example_response lifecycle_state))) = [1, 1]"
    using root_span_closed_once [OF example_not_excluded no_faults_all refl a t k len z refl,
        where response = example_response and ftv = no_faults and view_func = "''orders''"
          and st = traced_state and fte = str_fault and e = example_exception
          and ctx = example_context and execute = execute_ok and sql = "''SELECT 1''"
          and params = "()" and many = False]
    by (simp add: lifecycle_state_facts(3) sp)
  then have "map span_end_count
     (spans (snd (process_response startswith no_faults example_middleware example_request example_response
        (snd (process_exception startswith str_fault example_middleware example_request example_exception
          (snd (trace_db_call no_faults execute_ok ''SELECT 1'' () False example_context
            (snd (process_view startswith no_faults example_middleware example_request ''orders''
              (snd (process_request startswith no_faults example_middleware example_request
                 empty_state)))))))))))
     = [1, 1]"
    by (simp add: lifecycle_state_def traced_state_def)
  with example_not_excluded no_faults_all lifecycle_state_facts(3) show ?thesis
    by (intro conjI)
qed

subsection \<open>Failures of the instrumentation\<close>

text \<open>
  C2, as the claim states it, fails for the database wrapper: its span management is not
  inside any \<^verbatim>\<open>try\<close>. When \<^verbatim>\<open>tracer.start_span()\<close> raises, the wrapped call, which would
  have returned 1, is never made; the caller gets the tracer's exception, and nothing is
  logged.
\<close>

theorem trace_db_call_span_failure_counterexample:
  "execute_ok ''SELECT 1'' () False example_context = Inr 1 \<and>
   trace_db_call start_span_fault execute_ok ''SELECT 1'' () False example_context traced_state =
     (Inl (PyExc ''RuntimeError'' ''sampler failed'' None), traced_state)"
  by (simp add: execute_ok_def trace_db_call_def traced_state_eq start_span_fault_def
      example_context_def prog_defs store_defs tracer_defs)

text \<open>
  C2, amended to the four hooks. Whichever calls raise, in every state, each hook returns
  normally (\<^verbatim>\<open>process_response\<close> returns the response it was given), and the log grows by
  exactly one entry, holding the exception, when the guarded block of the hook raised,
  and by nothing otherwise.
\<close>

theorem hooks_catch_and_log:
  "fst (process_request pm ft self request s) = Inr () \<and>
   fst (process_view pm ft self request view_func s) = Inr () \<and>
   fst (process_response pm ft self request response s) = Inr response \<and>
   fst (process_exception pm ft self request exception s) = Inr () \<and>
   log_entries (snd (process_request pm ft self request s)) =
     log_entries s @
       (if disable_tracing_url pm (req_path request) (excludelist_paths self) then []
        else case fst (process_request_body ft self request
                 (s\<lparr>attrs := (attrs s)(REQUEST_THREAD_LOCAL_KEY \<mapsto> VRequest request,
                     ''excludelist_hostnames'' \<mapsto> VHostnames (excludelist_hostnames self))\<rparr>)) of
               Inl e \<Rightarrow> [(''Failed to trace request'', e)] | Inr _ \<Rightarrow> []) \<and>
   log_entries (snd (process_view pm ft self request view_func s)) =
     log_entries s @
       (if disable_tracing_url pm (req_path request) (excludelist_paths self) then []
        else case fst (process_view_body ft view_func s) of
               Inl e \<Rightarrow> [(''Failed to trace request'', e)] | Inr _ \<Rightarrow> []) \<and>
   log_entries (snd (process_response pm ft self request response s)) =
     log_entries s @
       (if disable_tracing_url pm (req_path request) (excludelist_paths self) then []
        else case fst (process_response_body ft request response s) of
               Inl e \<Rightarrow> [(''Failed to trace request'', e)] | Inr _ \<Rightarrow> []) \<and>
   log_entries (snd (process_exception pm ft self request exception s)) =
     log_entries s @
       (if disable_tracing_url pm (req_path request) (excludelist_paths self) then []
        else case fst (process_exception_body ft request exception s) of
               Inl e \<Rightarrow> [(''Failed to trace request'', e)] | Inr _ \<Rightarrow> [])"
proof -
  have r1: "fst (process_request pm ft self request s) = Inr ()"
  proof (cases "disable_tracing_url pm (req_path request) (excludelist_paths self)")
    case True
    then show ?thesis by (simp add: process_request_def ret_def)
  next
    case False
    then show ?thesis by (simp add: process_request_not_excluded guarded_result)
  qed
  have r2: "fst (process_view pm ft self request view_func s) = Inr ()"
    by (simp add: process_view_def ret_def guarded_result)
  have r3: "fst (process_response pm ft self request response s) = Inr response"
    by (simp add: process_response_def ret_def finally_return_def split: prod.splits)
  have r4: "fst (process_exception pm ft self request exception s) = Inr ()"
    by (simp add: process_exception_def ret_def guarded_result)
  have l1: "log_entries (snd (process_request pm ft self request s)) =
     log_entries s @
       (if disable_tracing_url pm (req_path request) (excludelist_paths self) then []
        else case fst (process_request_body ft self request (store_request self request s)) of
               Inl e \<Rightarrow> [(''Failed to trace request'', e)] | Inr _ \<Rightarrow> [])"
  proof (cases "disable_tracing_url pm (req_path request) (excludelist_paths self)")
    case True
    then show ?thesis by (simp add: process_request_def ret_def)
  next
    case False
    have "log_entries (store_request self request s) = log_entries s"
      by (simp add: store_request_def)
    with False show ?thesis
      by (simp add: process_request_not_excluded guarded_log [OF keeps_log_process_request_body])
  qed
  have l2: "log_entries (snd (process_view pm ft self request view_func s)) =
     log_entries s @
       (if disable_tracing_url pm (req_path request) (excludelist_paths self) then []
        else case fst (process_view_body ft view_func s) of
               Inl e \<Rightarrow> [(''Failed to trace request'', e)] | Inr _ \<Rightarrow> [])"
    by (simp add: process_view_def ret_def guarded_log [OF keeps_log_process_view_body])
  have l3: "log_entries (snd (process_response pm ft self request response s)) =
     log_entries s @
       (if disable_tracing_url pm (req_path request) (excludelist_paths self) then []
        else case fst (process_response_body ft request response s) of
               Inl e \<Rightarrow> [(''Failed to trace request'', e)] | Inr _ \<Rightarrow> [])"
  proof (cases "disable_tracing_url pm (req_path request) (excludelist_paths self)")
    case True
    then show ?thesis by (simp add: process_response_def ret_def)
  next
    case False
    have "snd (finally_return m response s) = snd (m s)" for m :: "unit prog"
      by (simp add: finally_return_def split: prod.splits)
    with False show ?thesis
      by (simp add: process_response_def guarded_log [OF keeps_log_process_response_body])
  qed
  have l4: "log_entries (snd (process_exception pm ft self request exception s)) =
     log_entries s @
       (if disable_tracing_url pm (req_path request) (excludelist_paths self) then []
        else case fst (process_exception_body ft request exception s) of
               Inl e \<Rightarrow> [(''Failed to trace request'', e)] | Inr _ \<Rightarrow> [])"
    by (simp add: process_exception_def ret_def guarded_log [OF keeps_log_process_exception_body])
  show ?thesis
    using r1 r2 r3 r4 l1 l2 l3 l4 unfolding store_request_def by blast
qed

subsection \<open>Excluded paths\<close>

text \<open>
  C3. For a request whose path matches a configured path-exclusion pattern, each of the
  four hooks is a no-op: the whole state (spans, tracer, Context Store, log) is what it
  was, \<^verbatim>\<open>process_response\<close> returns the response it was given, and this holds in every
  state, so no hook relies on a decision cached by an earlier one.
\<close>

theorem excluded_path_hooks_do_nothing:
  assumes "disable_tracing_url pm (req_path request) (excludelist_paths self)"
  shows "process_request pm ft self request s = (Inr (), s) \<and>
         process_view pm ft self request view_func s = (Inr (), s) \<and>
         process_response pm ft self request response s = (Inr response, s) \<and>
         process_exception pm ft self request exception s = (Inr (), s)"
  using assms
  by (simp add: process_request_def process_view_def process_response_def
      process_exception_def ret_def)

theorem excluded_path_hooks_do_nothing_witness:
  "disable_tracing_url startswith (req_path healthz_request) (excludelist_paths example_middleware) \<and>
   process_request startswith host_fault example_middleware healthz_request traced_state
     = (Inr (), traced_state) \<and>
   process_view startswith host_fault example_middleware healthz_request ''health'' traced_state
     = (Inr (), traced_state) \<and>
   process_response startswith host_fault example_middleware healthz_request example_response traced_state
     = (Inr example_response, traced_state) \<and>
   process_exception startswith host_fault example_middleware healthz_request example_exception traced_state
     = (Inr (), traced_state)"
proof -
  have excl: "disable_tracing_url startswith (req_path healthz_request)
                (excludelist_paths example_middleware)"
    by (simp add: disable_tracing_url_def startswith_def healthz_request_def example_middleware_def)
  show ?thesis
    using excl excluded_path_hooks_do_nothing [OF excl] by simp
qed

subsection \<open>Excluded host names\<close>

text \<open>
  C4, as the claim states it, fails. The host name of the sample request matches the
  configured hostname-exclusion pattern, and \<^verbatim>\<open>process_request\<close> opens the root span for
  it and stores it in the Context Store all the same.
\<close>

theorem hostname_excluded_request_traced_counterexample:
  "disable_tracing_hostname startswith (req_host example_request)
     (excludelist_hostnames example_middleware) \<and>
   spans (snd (process_request startswith no_faults example_middleware example_request empty_state))
     = [root_span example_request] \<and>
   attrs (snd (process_request startswith no_faults example_middleware example_request empty_state))
     SPAN_THREAD_LOCAL_KEY = Some (VSpan 0)"
proof -
  have "disable_tracing_hostname startswith (req_host example_request)
     (excludelist_hostnames example_middleware)"
    by (simp add: disable_tracing_hostname_def startswith_def example_request_def
        example_middleware_def)
  then show ?thesis
    using traced_state_eq by (simp add: traced_state_def)
qed

text \<open>
  C4, amended. The hostname-exclusion list does not gate the hooks. For a request whose
  path is not excluded, whatever its host name, \<^verbatim>\<open>process_request\<close> (when none of its
  calls raises) opens the root span, stores it in the Context Store and makes it the
  current span of a new tracer; all it does with the hostname-exclusion list is to copy
  it into the Context Store. The other three hooks do not depend on the list at all.
\<close>

theorem hostname_list_does_not_gate_hooks:
  assumes "\<not> disable_tracing_url pm (req_path request) (excludelist_paths self)"
    and "\<forall>c. ft c = None"
  shows "fst (process_request pm ft self request s) = Inr () \<and>
         spans (snd (process_request pm ft self request s)) = spans s @ [root_span request] \<and>
         attrs (snd (process_request pm ft self request s)) SPAN_THREAD_LOCAL_KEY =
           Some (VSpan (length (spans s))) \<and>
         attrs (snd (process_request pm ft self request s)) ''excludelist_hostnames'' =
           Some (VHostnames (excludelist_hostnames self)) \<and>
         (\<exists>tr. tracer (snd (process_request pm ft self request s)) = Some tr \<and>
               tr_stack tr = [length (spans s)]) \<and>
         process_view pm ft' (self\<lparr>excludelist_hostnames := h\<rparr>) request view_func s' =
           process_view pm ft' self request view_func s' \<and>
         process_response pm ft' (self\<lparr>excludelist_hostnames := h\<rparr>) request response s' =
           process_response pm ft' self request response s' \<and>
         process_exception pm ft' (self\<lparr>excludelist_hostnames := h\<rparr>) request exception s' =
           process_exception pm ft' self request exception s'"
  by (simp add: process_request_no_faults [OF assms] process_view_def process_response_def
      process_exception_def)

theorem hostname_list_does_not_gate_hooks_witness:
  "\<not> disable_tracing_url startswith (req_path example_request) (excludelist_paths example_middleware) \<and>
   (\<forall>c. no_faults c = None) \<and>
   disable_tracing_hostname startswith (req_host example_request)
     (excludelist_hostnames example_middleware) \<and>
   length (spans (snd (process_request startswith no_faults example_middleware example_request
     empty_state))) = 1"
proof -
  have "length (spans (snd (process_request startswith no_faults example_middleware example_request
     empty_state))) = 1"
    using hostname_list_does_not_gate_hooks [OF example_not_excluded no_faults_all, where s = empty_state]
    by (simp add: empty_state_def)
  moreover have "disable_tracing_hostname startswith (req_host example_request)
     (excludelist_hostnames example_middleware)"
    by (simp add: disable_tracing_hostname_def startswith_def example_request_def
        example_middleware_def)
  ultimately show ?thesis
    using example_not_excluded no_faults_all by (intro conjI)
qed

subsection \<open>The database wrapper\<close>

text \<open>
  C5. When no tracer is active, \<^verbatim>\<open>_trace_db_call\<close> returns the result of the wrapped call
  or raises its exception, whatever it is, and leaves the state as it was: no span is
  created, nothing is logged, the Context Store is untouched.
\<close>

theorem trace_db_call_without_tracer:
  assumes "tracer s = None"
  shows "trace_db_call ft execute sql params many ctx s = (execute sql params many ctx, s)"
  using assms
  by (simp add: trace_db_call_def bind_def get_current_tracer_def get_opencensus_tracer_def
      outcome_def)

theorem trace_db_call_without_tracer_witness:
  "tracer empty_state = None \<and>
   trace_db_call start_span_fault execute_fails ''SELECT 1'' () False example_context empty_state
     = (Inl (PyExc ''OperationalError'' ''connection lost'' None), empty_state)"
proof -
  have t: "tracer empty_state = None"
    by (simp add: empty_state_def)
  show ?thesis
    using t trace_db_call_without_tracer [OF t, of start_span_fault execute_fails "''SELECT 1''" "()" False example_context]
    by (simp add: execute_fails_def)
qed

text \<open>
  C6, as the claim states it, fails. A tracer is active and the database call raises
  \<^verbatim>\<open>OperationalError\<close>; the status is set, and then \<^verbatim>\<open>tracer.end_span()\<close> in the
  \<^verbatim>\<open>finally\<close> clause raises: the caller gets that exception instead of the original one,
  and the new span has not been closed.
\<close>

theorem trace_db_call_end_span_failure_counterexample:
  "tracer traced_state \<noteq> None \<and>
   execute_fails ''SELECT 1'' () False example_context =
     Inl (PyExc ''OperationalError'' ''connection lost'' None) \<and>
   fst (trace_db_call end_span_fault execute_fails ''SELECT 1'' () False example_context traced_state) =
     Inl (PyExc ''RuntimeError'' ''exporter failed'' None) \<and>
   map span_end_count
     (spans (snd (trace_db_call end_span_fault execute_fails ''SELECT 1'' () False example_context
        traced_state))) = [0, 0]"
  by (simp add: execute_fails_def trace_db_call_def traced_state_eq end_span_fault_def
      example_context_def prog_defs store_defs tracer_defs root_span_def)

text \<open>
  C6, amended. A database call made while a tracer is active, with a connection in its
  context, when none of the wrapper's own span-management calls (\<^verbatim>\<open>start_span\<close>, the four
  attribute calls, \<^verbatim>\<open>set_status\<close>, \<^verbatim>\<open>end_span\<close>) raises: \<^verbatim>\<open>_trace_db_call\<close> returns what
  the wrapped call returned, or raises the very exception it raised; it has opened exactly
  one new span, and in the state the caller sees that span has been closed exactly once,
  on both paths; its status is \<^verbatim>\<open>(UNKNOWN, 'DB error')\<close> when the call raised and absent
  when it returned; the tracer is back to what it was, and the spans that existed are
  untouched.
\<close>

theorem trace_db_call_closes_span:
  assumes "tracer s = Some tr" and "ctx ''connection'' = Some conn" and "\<forall>c. ft c = None"
  shows "fst (trace_db_call ft execute sql params many ctx s) = execute sql params many ctx \<and>
         length (spans (snd (trace_db_call ft execute sql params many ctx s))) =
           Suc (length (spans s)) \<and>
         take (length (spans s)) (spans (snd (trace_db_call ft execute sql params many ctx s))) =
           spans s \<and>
         span_end_count (spans (snd (trace_db_call ft execute sql params many ctx s)) !
           length (spans s)) = 1 \<and>
         span_status (spans (snd (trace_db_call ft execute sql params many ctx s)) !
           length (spans s)) =
           (case execute sql params many ctx of
              Inl e \<Rightarrow> Some (UNKNOWN, ''DB error'') | Inr r \<Rightarrow> None) \<and>
         tracer (snd (trace_db_call ft execute sql params many ctx s)) = Some tr"
  using assms(1)
  by (simp add: trace_db_call_no_faults [where ctx = ctx and ft = ft, OF assms])

theorem trace_db_call_closes_span_witness:
  "fst (trace_db_call no_faults execute_fails ''SELECT 1'' () False example_context traced_state) =
     Inl (PyExc ''OperationalError'' ''connection lost'' None) \<and>
   span_end_count (spans (snd (trace_db_call no_faults execute_fails ''SELECT 1'' () False
     example_context traced_state)) ! 1) = 1 \<and>
   span_status (spans (snd (trace_db_call no_faults execute_fails ''SELECT 1'' () False
     example_context traced_state)) ! 1) = Some (2, ''DB error'')"
proof -
  have t: "tracer traced_state =
      Some \<lparr>tr_span_context = SpanContext ''0af7651916cd43dd8448eb211c80319c'' None True,
            tr_sampler = ''ProbabilitySampler'', tr_exporter = ''PrintExporter'',
            tr_propagator = propagator example_middleware,
            tr_stack = [0], tr_finished = 0\<rparr>"
    by (simp add: traced_state_eq)
  have c: "example_context ''connection'' =
      Some \<lparr>conn_vendor = ''postgresql'', conn_alias = ''default''\<rparr>"
    by (simp add: example_context_def)
  have l: "length (spans traced_state) = 1"
    by (simp add: traced_state_eq)
  show ?thesis
    using trace_db_call_closes_span [where ctx = example_context and ft = no_faults and execute = execute_fails
        and sql = "''SELECT 1''" and params = "()" and many = False, OF t c no_faults_all] l
    by (simp add: execute_fails_def UNKNOWN_def)
qed

subsection \<open>The response is always returned\<close>

text \<open>
  C7. \<^verbatim>\<open>process_response\<close> returns the response it was given, for every request, in every
  state and whichever of the calls it makes raise: it never raises itself. What its
  guarded block raised, if anything, is in the log afterwards.
\<close>

theorem process_response_returns_response:
  "fst (process_response pm ft self request response s) = Inr response \<and>
   log_entries (snd (process_response pm ft self request response s)) =
     log_entries s @
       (if disable_tracing_url pm (req_path request) (excludelist_paths self) then []
        else case fst (process_response_body ft request response s) of
               Inl e \<Rightarrow> [(''Failed to trace request'', e)] | Inr _ \<Rightarrow> [])"
proof -
  have r: "fst (process_response pm ft self request response s) = Inr response"
    by (simp add: process_response_def ret_def finally_return_def split: prod.splits)
  have "snd (finally_return m response s) = snd (m s)" for m :: "unit prog"
    by (simp add: finally_return_def split: prod.splits)
  then have "log_entries (snd (process_response pm ft self request response s)) =
     log_entries s @
       (if disable_tracing_url pm (req_path request) (excludelist_paths self) then []
        else case fst (process_response_body ft request response s) of
               Inl e \<Rightarrow> [(''Failed to trace request'', e)] | Inr _ \<Rightarrow> [])"
    by (simp add: process_response_def ret_def guarded_log [OF keeps_log_process_response_body])
  with r show ?thesis
    by simp
qed

subsection \<open>Recording an exception\<close>

text \<open>
  C8, as the claim states it, fails. The sample request is not excluded and its root span
  is in the Context Store; \<^verbatim>\<open>str(exception)\<close> raises inside \<^verbatim>\<open>process_exception\<close>. The hook
  swallows that failure: the span has the error name, but neither the error message nor
  the stack trace.
\<close>

theorem process_exception_str_failure_counterexample:
  "\<not> disable_tracing_url startswith (req_path example_request) (excludelist_paths example_middleware) \<and>
   attrs traced_state SPAN_THREAD_LOCAL_KEY = Some (VSpan 0) \<and>
   span_attributes (spans (snd (process_exception startswith str_fault example_middleware
     example_request example_exception traced_state)) ! 0) ERROR_NAME = Some (AStr ''ValueError'') \<and>
   span_attributes (spans (snd (process_exception startswith str_fault example_middleware
     example_request example_exception traced_state)) ! 0) ERROR_MESSAGE = None \<and>
   span_attributes (spans (snd (process_exception startswith str_fault example_middleware
     example_request example_exception traced_state)) ! 0) STACKTRACE = None"
  by (simp add: example_not_excluded process_exception_def try_except_def
      process_exception_body_def traced_state_eq str_fault_def example_exception_def
      prog_defs store_defs the_span_def span_add_attribute_def update_span_def root_span_def
      ERROR_NAME_def ERROR_MESSAGE_def STACKTRACE_def HTTP_HOST_def HTTP_METHOD_def HTTP_PATH_def
      HTTP_ROUTE_def HTTP_URL_def)

text \<open>
  C8, amended. For a request whose path is not excluded and whose root span is in the
  Context Store, when none of the calls made by \<^verbatim>\<open>process_exception\<close> raises: the hook
  returns normally; the stored span gets the class name of the exception as error name,
  its \<^verbatim>\<open>str()\<close> as error message and the formatted frames of its traceback, joined by
  newlines, as stack trace; the user attributes are set again from the request; nothing
  else of the stored span changes, in particular it is not closed; no other span changes,
  whichever span is the tracer's current one; the tracer, the Context Store and the log
  are as they were. In any state and whatever raises, \<^verbatim>\<open>process_exception\<close> leaves the
  tracer and the close count of every span as they were.
\<close>

theorem process_exception_annotates_stored_span:
  assumes "\<not> disable_tracing_url pm (req_path request) (excludelist_paths self)"
    and "\<forall>c. ft c = None"
    and "attrs s SPAN_THREAD_LOCAL_KEY = Some (VSpan sid)"
    and "sid < length (spans s)"
    and "s' = snd (process_exception pm ft self request exception s)"
  shows "fst (process_exception pm ft self request exception s) = Inr () \<and>
         span_attributes (spans s' ! sid) ERROR_NAME = Some (AStr (exc_class exception)) \<and>
         span_attributes (spans s' ! sid) ERROR_MESSAGE = Some (AStr (exc_message exception)) \<and>
         span_attributes (spans s' ! sid) STACKTRACE =
           Some (AStr (join [CHR 0x0A]
             (case exc_traceback exception of Some t \<Rightarrow> t | None \<Rightarrow> sys_exc_info_tb s))) \<and>
         span_attributes (spans s' ! sid) ''django.user.id'' =
           (case req_user request of
              None \<Rightarrow> span_attributes (spans s ! sid) ''django.user.id''
            | Some u \<Rightarrow>
                (case user_pk u of
                   None \<Rightarrow> span_attributes (spans s ! sid) ''django.user.id''
                 | Some i \<Rightarrow> Some (AStr (str_int i)))) \<and>
         span_attributes (spans s' ! sid) ''django.user.name'' =
           (case req_user request of
              None \<Rightarrow> span_attributes (spans s ! sid) ''django.user.name''
            | Some u \<Rightarrow>
                (case user_username u of
                   None \<Rightarrow> span_attributes (spans s ! sid) ''django.user.name''
                 | Some n \<Rightarrow> Some (AStr n))) \<and>
         span_end_count (spans s' ! sid) = span_end_count (spans s ! sid) \<and>
         (spans s' ! sid)\<lparr>span_attributes := span_attributes (spans s ! sid)\<rparr> = spans s ! sid \<and>
         length (spans s') = length (spans s) \<and>
         (\<forall>j. j \<noteq> sid \<longrightarrow> spans s' ! j = spans s ! j) \<and>
         tracer s' = tracer s \<and> attrs s' = attrs s \<and> log_entries s' = log_entries s \<and>
         tracer (snd (process_exception pm fte self request exception st)) = tracer st \<and>
         map span_end_count (spans (snd (process_exception pm fte self request exception st))) =
           map span_end_count (spans st)"
proof -
  have pe: "open_close (snd (process_exception pm fte self request exception st)) = open_close st"
    by (rule keepsD [OF keeps_oc_process_exception])
  have "fst (process_exception pm ft self request exception s) = Inr () \<and>
         span_attributes (spans s' ! sid) ERROR_NAME = Some (AStr (exc_class exception)) \<and>
         span_attributes (spans s' ! sid) ERROR_MESSAGE = Some (AStr (exc_message exception)) \<and>
         span_attributes (spans s' ! sid) STACKTRACE =
           Some (AStr (join [CHR 0x0A]
             (case exc_traceback exception of Some t \<Rightarrow> t | None \<Rightarrow> sys_exc_info_tb s))) \<and>
         span_attributes (spans s' ! sid) ''django.user.id'' =
           (case req_user request of
              None \<Rightarrow> span_attributes (spans s ! sid) ''django.user.id''
            | Some u \<Rightarrow>
                (case user_pk u of
                   None \<Rightarrow> span_attributes (spans s ! sid) ''django.user.id''
                 | Some i \<Rightarrow> Some (AStr (str_int i)))) \<and>
         span_attributes (spans s' ! sid) ''django.user.name'' =
           (case req_user request of
              None \<Rightarrow> span_attributes (spans s ! sid) ''django.user.name''
            | Some u \<Rightarrow>
                (case user_username u of
                   None \<Rightarrow> span_attributes (spans s ! sid) ''django.user.name''
                 | Some n \<Rightarrow> Some (AStr n))) \<and>
         span_end_count (spans s' ! sid) = span_end_count (spans s ! sid) \<and>
         (spans s' ! sid)\<lparr>span_attributes := span_attributes (spans s ! sid)\<rparr> = spans s ! sid \<and>
         length (spans s') = length (spans s) \<and>
         (\<forall>j. j \<noteq> sid \<longrightarrow> spans s' ! j = spans s ! j) \<and>
         tracer s' = tracer s \<and> attrs s' = attrs s \<and> log_entries s' = log_entries s"
    using assms(1,4)
    by (simp add: assms(5) process_exception_def try_except_def
        process_exception_body_no_faults [OF assms(2,3)] update_span_def
        user_attributes_id user_attributes_name user_attributes_other
        ERROR_NAME_def ERROR_MESSAGE_def STACKTRACE_def split: option.splits)
  with pe show ?thesis
    by (simp add: open_close_def)
qed

theorem process_exception_annotates_stored_span_witness:
  "\<not> disable_tracing_url startswith (req_path example_request) (excludelist_paths example_middleware) \<and>
   attrs child_open_state SPAN_THREAD_LOCAL_KEY = Some (VSpan 0) \<and>
   (\<exists>t. tracer child_open_state = Some t \<and> tr_stack t = [1, 0]) \<and>
   span_attributes (spans (snd (process_exception startswith no_faults example_middleware
     example_request example_exception child_open_state)) ! 0) ERROR_NAME = Some (AStr ''ValueError'') \<and>
   span_attributes (spans (snd (process_exception startswith no_faults example_middleware
     example_request example_exception child_open_state)) ! 0) ERROR_MESSAGE = Some (AStr ''boom'') \<and>
   span_attributes (spans (snd (process_exception startswith no_faults example_middleware
     example_request example_exception child_open_state)) ! 0) STACKTRACE =
     Some (AStr ''File views.py, line 3, in orders'') \<and>
   span_end_count (spans (snd (process_exception startswith no_faults example_middleware
     example_request example_exception child_open_state)) ! 0) = 0 \<and>
   spans (snd (process_exception startswith no_faults example_middleware
     example_request example_exception child_open_state)) ! 1 = blank_span (Some 0)"
proof -
  have a: "attrs child_open_state SPAN_THREAD_LOCAL_KEY = Some (VSpan 0)"
    and l: "0 < length (spans child_open_state)"
    and c: "span_end_count (spans child_open_state ! 0) = 0"
    and o: "spans child_open_state ! 1 = blank_span (Some 0)"
    and t: "\<exists>t. tracer child_open_state = Some t \<and> tr_stack t = [1, 0]"
    by (simp_all add: child_open_state_eq traced_state_eq root_span_def)
  have "span_attributes (spans (snd (process_exception startswith no_faults example_middleware
     example_request example_exception child_open_state)) ! 0) ERROR_NAME = Some (AStr ''ValueError'') \<and>
   span_attributes (spans (snd (process_exception startswith no_faults example_middleware
     example_request example_exception child_open_state)) ! 0) ERROR_MESSAGE = Some (AStr ''boom'') \<and>
   span_attributes (spans (snd (process_exception startswith no_faults example_middleware
     example_request example_exception child_open_state)) ! 0) STACKTRACE =
     Some (AStr ''File views.py, line 3, in orders'') \<and>
   span_end_count (spans (snd (process_exception startswith no_faults example_middleware
     example_request example_exception child_open_state)) ! 0) = 0 \<and>
   spans (snd (process_exception startswith no_faults example_middleware
     example_request example_exception child_open_state)) ! 1 = blank_span (Some 0)"
    using process_exception_annotates_stored_span [OF example_not_excluded no_faults_all a l refl,
        where exception = example_exception and fte = no_faults and st = empty_state] c o
    by (simp add: example_exception_def)
  with example_not_excluded a t show ?thesis
    by blast
qed

subsection \<open>User attributes\<close>

text \<open>
  C9, as the claim states it, fails. The sample request is made by a visitor who is not
  logged in: the user has no primary key and the empty user name. The span had no user
  attribute before \<^verbatim>\<open>process_response\<close>; after it the span has the user name attribute,
  though the user id is null, and no user id attribute.
\<close>

theorem anonymous_user_name_attached_counterexample:
  "req_user example_request = Some \<lparr>user_pk = None, user_username = Some ''''\<rparr> \<and>
   span_attributes (spans traced_state ! 0) ''django.user.name'' = None \<and>
   span_attributes
     (spans (snd (process_response startswith no_faults example_middleware example_request
        example_response traced_state)) ! 0) ''django.user.name'' = Some (AStr '''') \<and>
   span_attributes
     (spans (snd (process_response startswith no_faults example_middleware example_request
        example_response traced_state)) ! 0) ''django.user.id'' = None"
proof -
  have u: "req_user example_request = Some \<lparr>user_pk = None, user_username = Some ''''\<rparr>"
    by (simp add: example_request_def)
  show ?thesis
    using u traced_state_facts(3,4)
    by (simp add: process_response_attributes
          [OF example_not_excluded no_faults_all traced_state_facts(1,2)]
        user_attributes_id user_attributes_name HTTP_STATUS_CODE_def)
qed

text \<open>
  C9, amended. In \<^verbatim>\<open>process_response\<close> on a request whose path is not excluded, with the
  root span stored and no call raising, each of the two user attributes is attached on
  its own: the user id attribute exactly when the request has a user whose primary key is
  not null, the user name attribute exactly when the request has a user whose user name
  is not null; an attribute that is not attached keeps the value it had. The status code
  of the response is attached in every case.
\<close>

theorem user_attributes_attached_independently:
  assumes "\<not> disable_tracing_url pm (req_path request) (excludelist_paths self)"
    and "\<forall>c. ft c = None"
    and "attrs s SPAN_THREAD_LOCAL_KEY = Some (VSpan sid)"
    and "sid < length (spans s)"
  shows "fst (process_response pm ft self request response s) = Inr response \<and>
         span_attributes (spans (snd (process_response pm ft self request response s)) ! sid)
           HTTP_STATUS_CODE = Some (AInt (status_code response)) \<and>
         span_attributes (spans (snd (process_response pm ft self request response s)) ! sid)
           ''django.user.id'' =
           (case req_user request of
              None \<Rightarrow> span_attributes (spans s ! sid) ''django.user.id''
            | Some u \<Rightarrow>
                (case user_pk u of
                   None \<Rightarrow> span_attributes (spans s ! sid) ''django.user.id''
                 | Some i \<Rightarrow> Some (AStr (str_int i)))) \<and>
         span_attributes (spans (snd (process_response pm ft self request response s)) ! sid)
           ''django.user.name'' =
           (case req_user request of
              None \<Rightarrow> span_attributes (spans s ! sid) ''django.user.name''
            | Some u \<Rightarrow>
                (case user_username u of
                   None \<Rightarrow> span_attributes (spans s ! sid) ''django.user.name''
                 | Some n \<Rightarrow> Some (AStr n)))"
proof -
  have "fst (process_response pm ft self request response s) = Inr response"
    by (simp add: process_response_def ret_def finally_return_def split: prod.splits)
  then show ?thesis
    by (simp add: process_response_attributes [OF assms] user_attributes_id user_attributes_name
        user_attributes_other HTTP_STATUS_CODE_def split: option.splits)
qed

theorem user_attributes_attached_independently_witness:
  "\<not> disable_tracing_url startswith (req_path member_request) (excludelist_paths example_middleware) \<and>
   attrs member_state SPAN_THREAD_LOCAL_KEY = Some (VSpan 0) \<and>
   0 < length (spans member_state) \<and>
   span_attributes
     (spans (snd (process_response startswith no_faults example_middleware member_request
        example_response member_state)) ! 0) ''django.user.id'' = Some (AStr ''7'') \<and>
   span_attributes
     (spans (snd (process_response startswith no_faults example_middleware member_request
        example_response member_state)) ! 0) ''django.user.name'' = Some (AStr ''alice'')"
proof -
  have u: "req_user member_request = Some \<lparr>user_pk = Some 7, user_username = Some ''alice''\<rparr>"
    by (simp add: member_request_def)
  have i: "str_int 7 = ''7''"
    by code_simp
  have "span_attributes
     (spans (snd (process_response startswith no_faults example_middleware member_request
        example_response member_state)) ! 0) ''django.user.id'' = Some (AStr ''7'') \<and>
   span_attributes
     (spans (snd (process_response startswith no_faults example_middleware member_request
        example_response member_state)) ! 0) ''django.user.name'' = Some (AStr ''alice'')"
    using user_attributes_attached_independently
        [OF member_not_excluded no_faults_all member_state_facts(1,2), of example_response] u i
    by simp
  with member_not_excluded member_state_facts(1,2) show ?thesis
    by (intro conjI) simp_all
qed

subsection \<open>The Context Store after a failed \<^verbatim>\<open>process_request\<close>\<close>

text \<open>
  C10. For a request whose path is not excluded, whichever calls raise, \<^verbatim>\<open>process_request\<close>
  returns normally and the Context Store then holds the request and the hostname-exclusion
  list. If decoding the span context, constructing the tracer or starting the span
  raises, the Context Store is what it was plus these two entries (it is not restored),
  the span entry is what it was before the hook, no span has been created, and the
  exception has been logged.
\<close>

theorem process_request_failure_keeps_store_entries:
  assumes "\<not> disable_tracing_url pm (req_path request) (excludelist_paths self)"
    and "s' = snd (process_request pm ft self request s)"
  shows "fst (process_request pm ft self request s) = Inr () \<and>
         attrs s' REQUEST_THREAD_LOCAL_KEY = Some (VRequest request) \<and>
         attrs s' ''excludelist_hostnames'' = Some (VHostnames (excludelist_hostnames self)) \<and>
         (ft From_headers \<noteq> None \<or> ft Tracer_init \<noteq> None \<or> ft Start_span \<noteq> None \<longrightarrow>
            attrs s' SPAN_THREAD_LOCAL_KEY = attrs s SPAN_THREAD_LOCAL_KEY \<and>
            attrs s' = (attrs s)(REQUEST_THREAD_LOCAL_KEY \<mapsto> VRequest request,
                                 ''excludelist_hostnames'' \<mapsto> VHostnames (excludelist_hostnames self)) \<and>
            spans s' = spans s \<and>
            (\<exists>e. log_entries s' = log_entries s @ [(''Failed to trace request'', e)]))"
proof -
  let ?s0 = "store_request self request s"
  have r: "fst (process_request pm ft self request s) = Inr ()"
    by (simp add: process_request_not_excluded [OF assms(1)] guarded_result)
  have k: "keeps (\<lambda>s. (attrs s REQUEST_THREAD_LOCAL_KEY, attrs s ''excludelist_hostnames''))
      (try_except (process_request_body ft self request) (log_error ''Failed to trace request''))"
    by (intro keeps_try_except keeps_store_process_request_body)
       (simp add: log_error_def keeps_modify)
  have w: "attrs s' REQUEST_THREAD_LOCAL_KEY = Some (VRequest request) \<and>
           attrs s' ''excludelist_hostnames'' = Some (VHostnames (excludelist_hostnames self))"
    using keepsD [OF k, of ?s0]
    by (simp add: assms(2) process_request_not_excluded [OF assms(1)] store_request_def)
  have f: "attrs s' SPAN_THREAD_LOCAL_KEY = attrs s SPAN_THREAD_LOCAL_KEY \<and>
           attrs s' = (attrs s)(REQUEST_THREAD_LOCAL_KEY \<mapsto> VRequest request,
                                ''excludelist_hostnames'' \<mapsto> VHostnames (excludelist_hostnames self)) \<and>
           spans s' = spans s \<and>
           (\<exists>e. log_entries s' = log_entries s @ [(''Failed to trace request'', e)])"
    if flt: "ft From_headers \<noteq> None \<or> ft Tracer_init \<noteq> None \<or> ft Start_span \<noteq> None"
  proof -
    obtain e s1 where b: "process_request_body ft self request ?s0 = (Inl e, s1)"
      and a: "attrs s1 = attrs ?s0" and sp: "spans s1 = spans s"
      using process_request_body_early_fault [OF flt] by blast
    have l: "log_entries s1 = log_entries s"
      using keepsD [OF keeps_log_process_request_body, of ft self request ?s0] b
      by (simp add: store_request_def)
    have "process_request pm ft self request s =
            (Inr (), s1\<lparr>log_entries := log_entries s1 @ [(''Failed to trace request'', e)]\<rparr>)"
      by (simp add: process_request_not_excluded [OF assms(1)] try_except_def b log_error_def
          modify_def)
    then show ?thesis
      using a sp l by (simp add: assms(2) store_request_def)
  qed
  show ?thesis
    using r w f by blast
qed

theorem process_request_failure_keeps_store_entries_witness:
  "\<not> disable_tracing_url startswith (req_path example_request) (excludelist_paths example_middleware) \<and>
   start_span_fault Start_span \<noteq> None \<and>
   attrs (snd (process_request startswith start_span_fault example_middleware example_request
     empty_state)) REQUEST_THREAD_LOCAL_KEY = Some (VRequest example_request) \<and>
   attrs (snd (process_request startswith start_span_fault example_middleware example_request
     empty_state)) SPAN_THREAD_LOCAL_KEY = None \<and>
   spans (snd (process_request startswith start_span_fault example_middleware example_request
     empty_state)) = []"
proof -
  have f: "start_span_fault Start_span \<noteq> None"
    by (simp add: start_span_fault_def)
  have "attrs (snd (process_request startswith start_span_fault example_middleware example_request
     empty_state)) REQUEST_THREAD_LOCAL_KEY = Some (VRequest example_request) \<and>
   attrs (snd (process_request startswith start_span_fault example_middleware example_request
     empty_state)) SPAN_THREAD_LOCAL_KEY = None \<and>
   spans (snd (process_request startswith start_span_fault example_middleware example_request
     empty_state)) = []"
    using process_request_failure_keeps_store_entries [OF example_not_excluded refl, of start_span_fault empty_state] f
    by (simp add: empty_state_def)
  with example_not_excluded f show ?thesis
    by (intro conjI) simp_all
qed

end
